theory Spec2Isabelle
  imports
    Main
    "HOL-Library.Char_ord"
    "HOL-Library.List_Lexorder"
    "HOL-Library.Sublist"
begin

section \<open>Errors and results\<close>

text \<open>
  Every exception of \<^verbatim>\<open>remote.py\<close> is a value.  The \<^verbatim>\<open>RuntimeError\<close>s
  carry the place that raised them, the other Python exceptions a short tag.
\<close>

datatype runtime_error =
    CommandFailed "string list" int
  | PushNotUnderRoot string string
  | WorkingDirOutsideWorkspace string string

datatype error =
    RuntimeError runtime_error
  | TypeError string
  | ValueError string
  | AttributeError string
  | KeyError string
  | IndexError

type_synonym 'a result = "error + 'a"

definition bindE :: "'a result \<Rightarrow> ('a \<Rightarrow> 'b result) \<Rightarrow> 'b result" where
  "bindE m f = (case m of Inl e \<Rightarrow> Inl e | Inr x \<Rightarrow> f x)"

section \<open>Python values and string methods\<close>

text \<open>
  \<^verbatim>\<open>str(x)\<close> and \<^verbatim>\<open>'{}'.format(x)\<close> of a value that may be \<^verbatim>\<open>None\<close>.
\<close>

definition py_str :: "string option \<Rightarrow> string" where
  "py_str v = (case v of None \<Rightarrow> ''None'' | Some s \<Rightarrow> s)"

text \<open>
  Truthiness of an optional string or list (\<^verbatim>\<open>if self.cfg.remote_workspace:\<close>):
  \<^verbatim>\<open>None\<close> and the empty value are both false.  \<open>if_truthy\<close> keeps the value when
  the test succeeds.
\<close>

definition if_truthy :: "'a list option \<Rightarrow> 'a list option" where
  "if_truthy v = (case v of None \<Rightarrow> None | Some x \<Rightarrow> if x = [] then None else Some x)"

definition truthy :: "'a list option \<Rightarrow> bool" where
  "truthy v \<longleftrightarrow> if_truthy v \<noteq> None"

text \<open>\<^verbatim>\<open>sep.join(xs)\<close>.\<close>

fun str_join :: "string \<Rightarrow> string list \<Rightarrow> string" where
  "str_join sep [] = []"
| "str_join sep [x] = x"
| "str_join sep (x # y # ys) = x @ sep @ str_join sep (y # ys)"

text \<open>\<^verbatim>\<open>s.split(c)\<close> for a separator of one character: never an empty list.\<close>

fun str_split :: "char \<Rightarrow> string \<Rightarrow> string list" where
  "str_split c [] = [[]]"
| "str_split c (x # xs) =
     (if x = c then [] # str_split c xs
      else (case str_split c xs of [] \<Rightarrow> [[x]] | p # ps \<Rightarrow> (x # p) # ps))"

text \<open>\<^verbatim>\<open>s.rstrip(c)\<close> for one character.\<close>

definition str_rstrip :: "char \<Rightarrow> string \<Rightarrow> string" where
  "str_rstrip c s = rev (dropWhile (\<lambda>x. x = c) (rev s))"

text \<open>\<^verbatim>\<open>s.rpartition(c)[0]\<close>: what precedes the last \<open>c\<close>, empty when there is none.\<close>

definition rpartition_head :: "char \<Rightarrow> string \<Rightarrow> string" where
  "rpartition_head c s =
     (if c \<in> set s then rev (tl (dropWhile (\<lambda>x. x \<noteq> c) (rev s))) else [])"

text \<open>\<^verbatim>\<open>str(n)\<close> of an integer, in decimal.\<close>

definition digit_char :: "nat \<Rightarrow> char" where
  "digit_char d = ''0123456789'' ! d"

fun str_nat :: "nat \<Rightarrow> string" where
  "str_nat n = (if n < 10 then [digit_char n] else str_nat (n div 10) @ [digit_char (n mod 10)])"

definition str_int :: "int \<Rightarrow> string" where
  "str_int i = (if i < 0 then CHR ''-'' # str_nat (nat (- i)) else str_nat (nat i))"

text \<open>Running a fallible function over a list, stopping at the first error.\<close>

fun mapE :: "('a \<Rightarrow> 'b result) \<Rightarrow> 'a list \<Rightarrow> 'b list result" where
  "mapE f [] = Inr []"
| "mapE f (x # xs) = bindE (f x) (\<lambda>y. bindE (mapE f xs) (\<lambda>ys. Inr (y # ys)))"

section \<open>Data model\<close>

text \<open>
  \<^verbatim>\<open>_LocationPaths\<close> stores a local path and its remote equivalent.  The worker's own
  pairs start with both sides \<^verbatim>\<open>None\<close> (\<open>string option\<close>); the pairs of the push
  lists are built from two strings.
\<close>

record 'a LocationPaths =
  local :: 'a
  remote :: 'a

text \<open>
  \<^verbatim>\<open>WorkerSetupMetadata\<close>.  \<^verbatim>\<open>workspace_paths\<close> receives the worker's own
  \<^verbatim>\<open>_LocationPaths\<close> object at the end of \<^verbatim>\<open>_prepare_remote\<close>; here its value.
\<close>

record WorkerSetupMetadata =
  push_dirs :: "string list option"
  push_files :: "string list option"
  push_dir :: "string option"
  setup_script :: "string list option"
  env :: "(string \<times> string) list option"
  workspace_paths :: "string option LocationPaths option"
  workspace_pushed :: bool

text \<open>
  The attributes of \<^verbatim>\<open>RemoteWorker\<close>.  A leading underscore of the source is written
  \<open>p_\<close>.  \<^verbatim>\<open>__init__\<close> creates \<^verbatim>\<open>remote_push_dir\<close>; \<^verbatim>\<open>_remote_push_dir\<close> is a
  second attribute that only \<^verbatim>\<open>_build_push_dests\<close> creates (\<open>None\<close> while absent).
\<close>

record RemoteWorker =
  p_remote_testplan_path :: "string option"
  p_user :: string
  p_workspace_paths :: "string option LocationPaths"
  p_child_paths :: "string option LocationPaths"
  p_working_dirs :: "string option LocationPaths"
  p_should_transfer_workspace :: bool
  p_remote_testplan_runpath :: "string option"
  setup_metadata :: WorkerSetupMetadata
  remote_push_dir :: "string option"
  p_remote_push_dir :: "string option"

text \<open>
  An element of the \<^verbatim>\<open>push\<close> option: a string or a tuple of strings.  The keyword
  arguments of \<^verbatim>\<open>copy_cmd\<close>: none, or \<^verbatim>\<open>exclude=\<close> a list or \<^verbatim>\<open>None\<close>.
\<close>

datatype push_item = PStr string | PTuple "string list"

datatype copy_args = NoArgs | Exclude "string list option"

text \<open>
  The options of \<^verbatim>\<open>RemotePoolConfig\<close> and \<^verbatim>\<open>RemoteWorkerConfig\<close> that the worker
  reads, \<^verbatim>\<open>self.cfg.x\<close> written \<open>cfg_x\<close>.  \<open>cfg_plan_name\<close> is
  \<^verbatim>\<open>self.cfg.parent.parent.name\<close>.  The three command builders and the workspace check
  are callables of the configuration.
\<close>

record config =
  cfg_index :: string
  cfg_workers :: int
  cfg_pool_type :: string
  cfg_plan_name :: string
  cfg_ssh_cmd :: "string \<Rightarrow> string \<Rightarrow> string list"
  cfg_copy_cmd :: "string option \<Rightarrow> string option \<Rightarrow> copy_args \<Rightarrow> string list"
  cfg_link_cmd :: "string \<Rightarrow> string \<Rightarrow> string list"
  cfg_workspace :: string
  cfg_workspace_exclude :: "string list option"
  cfg_remote_workspace :: "string option"
  cfg_copy_workspace_check ::
    "((string \<Rightarrow> string \<Rightarrow> string list) \<Rightarrow> string \<Rightarrow> string \<Rightarrow> string list) option"
  cfg_env :: "(string \<times> string) list option"
  cfg_setup_script :: "string list option"
  cfg_push :: "push_item list option"
  cfg_push_exclude :: "string list option"
  cfg_push_relative_dir :: "string option"
  cfg_remote_mkdir :: "string list"
  cfg_testplan_path :: "string option"

text \<open>
  What the module reads from outside itself: the operating system, the standard library
  and the helpers of \<^verbatim>\<open>testplan.common.utils\<close> (\<^verbatim>\<open>is_subdir\<close>,
  \<^verbatim>\<open>to_posix_path\<close>, \<^verbatim>\<open>slugify\<close>, \<^verbatim>\<open>fix_home_prefix\<close>, \<^verbatim>\<open>pwd\<close>), which are
  parameters here.  \<open>child_path\<close> is the result of \<^verbatim>\<open>self._child_path()\<close>,
  \<open>testplan_abspath\<close> the directory above the imported \<^verbatim>\<open>testplan\<close> package,
  \<open>deps_env_name\<close> the constant \<^verbatim>\<open>testplan.TESTPLAN_DEPENDENCIES_PATH\<close>,
  \<open>effective_level\<close> the level of \<^verbatim>\<open>TESTPLAN_LOGGER\<close>, and \<open>returncode\<close> the exit code
  of a subprocess given the commands run before it.
\<close>

record host_env =
  getuser :: string
  os_sep :: char
  environ :: "string \<Rightarrow> string option"
  isfile :: "string \<Rightarrow> bool"
  isdir :: "string \<Rightarrow> bool"
  is_subdir :: "string \<Rightarrow> string \<Rightarrow> bool"
  to_posix_path :: "string \<Rightarrow> string"
  relpath :: "string \<Rightarrow> string \<Rightarrow> string"
  path_join :: "string \<Rightarrow> string \<Rightarrow> string"
  slugify :: "string \<Rightarrow> string"
  fix_home_prefix :: "string \<Rightarrow> string"
  pwd :: string
  child_path :: string
  platform_system :: string
  python_version :: string
  sys_executable :: string
  effective_level :: int
  transport_address :: string
  testplan_abspath :: string
  deps_env_name :: string
  returncode :: "string list list \<Rightarrow> string list \<Rightarrow> int"

text \<open>
  Warnings and errors written to the logger (debug records are left out), and the
  messages of the control plane.
\<close>

datatype log_record = LogWarning string | LogError string

datatype message_cmd = MetadataPull | Metadata

record message =
  cmd :: message_cmd
  data :: "WorkerSetupMetadata option"

text \<open>
  The state a worker runs in: its attributes, the subprocess commands executed so far
  (oldest first), the log, and the responses it has sent.
\<close>

record state =
  worker :: RemoteWorker
  executed :: "string list list"
  logged :: "log_record list"
  responses :: "message list"

definition WorkerSetupMetadata_init :: WorkerSetupMetadata where
  "WorkerSetupMetadata_init =
     \<lparr>push_dirs = None, push_files = None, push_dir = None, setup_script = None,
      env = None, workspace_paths = None, workspace_pushed = False\<rparr>"

definition LocationPaths_init :: "string option LocationPaths" where
  "LocationPaths_init = \<lparr>local = None, remote = None\<rparr>"

text \<open>\<^verbatim>\<open>RemoteWorker.__init__\<close>.\<close>

definition RemoteWorker_init :: "host_env \<Rightarrow> RemoteWorker" where
  "RemoteWorker_init e =
     \<lparr>p_remote_testplan_path = None,
      p_user = getuser e,
      p_workspace_paths = LocationPaths_init,
      p_child_paths = LocationPaths_init,
      p_working_dirs = LocationPaths_init,
      p_should_transfer_workspace = True,
      p_remote_testplan_runpath = None,
      setup_metadata = WorkerSetupMetadata_init,
      remote_push_dir = None,
      p_remote_push_dir = None\<rparr>"

definition state_init :: "host_env \<Rightarrow> state" where
  "state_init e = \<lparr>worker = RemoteWorker_init e, executed = [], logged = [], responses = []\<rparr>"

section \<open>Deduplication of the push directories\<close>

text \<open>
  The loop of \<^verbatim>\<open>_build_push_lists\<close> over \<^verbatim>\<open>range(len(push_dirs) - 1)\<close>: entry
  \<open>idx\<close> becomes \<^verbatim>\<open>None\<close> when the local path of entry \<open>idx + 1\<close> starts with its
  local path.  Reading \<^verbatim>\<open>.local\<close> of a \<^verbatim>\<open>None\<close> entry raises.
\<close>

definition dedup_step ::
  "nat \<Rightarrow> string LocationPaths option list \<Rightarrow> string LocationPaths option list result" where
  "dedup_step idx dirs =
     (if length dirs \<le> idx + 1 then Inl IndexError
      else case dirs ! (idx + 1) of
        None \<Rightarrow> Inl (AttributeError ''local'')
      | Some nxt \<Rightarrow>
          (case dirs ! idx of
             None \<Rightarrow> Inl (AttributeError ''local'')
           | Some cur \<Rightarrow>
               if prefix (local cur) (local nxt)
               then Inr (dirs[idx := None])
               else Inr dirs))"

fun dedup_loop ::
  "nat list \<Rightarrow> string LocationPaths option list \<Rightarrow> string LocationPaths option list result" where
  "dedup_loop [] dirs = Inr dirs"
| "dedup_loop (idx # idxs) dirs = bindE (dedup_step idx dirs) (dedup_loop idxs)"

definition dedup_push_dirs :: "string LocationPaths list \<Rightarrow> string LocationPaths list result" where
  "dedup_push_dirs dirs =
     (if dirs \<noteq> [] \<and> length dirs > 1
      then bindE (dedup_loop [0 ..< length dirs - 1] (map Some (sort_key local dirs)))
             (\<lambda>marked. Inr (map the (filter (\<lambda>d. d \<noteq> None) marked)))
      else Inr dirs)"

section \<open>Running commands\<close>

text \<open>
  \<^verbatim>\<open>_execute_cmd\<close>: the command runs, and with \<open>check\<close> a non-zero exit code raises
  \<^verbatim>\<open>RuntimeError\<close>.  The label and the redirections do not change the result.
\<close>

definition execute_cmd :: "host_env \<Rightarrow> string list \<Rightarrow> bool \<Rightarrow> state \<Rightarrow> (int \<times> state) result" where
  "execute_cmd e command check s =
     (let rc = returncode e (executed s) command;
          s' = s\<lparr>executed := executed s @ [command]\<rparr>
      in if check \<and> rc \<noteq> 0 then Inl (RuntimeError (CommandFailed command rc))
         else Inr (rc, s'))"

text \<open>\<^verbatim>\<open>_mkdir_remote\<close>.\<close>

definition mkdir_remote :: "config \<Rightarrow> host_env \<Rightarrow> string \<Rightarrow> state \<Rightarrow> state result" where
  "mkdir_remote cfg e remote_dir s =
     bindE (execute_cmd e
              (cfg_ssh_cmd cfg (cfg_index cfg) (str_join '' '' (cfg_remote_mkdir cfg @ [remote_dir])))
              True s)
       (\<lambda>(rc, s'). Inr s')"

text \<open>\<^verbatim>\<open>_remote_copy_path\<close>: \<^verbatim>\<open>user@host:path\<close>.\<close>

definition remote_copy_path :: "config \<Rightarrow> RemoteWorker \<Rightarrow> string option \<Rightarrow> string" where
  "remote_copy_path cfg w path = p_user w @ ''@'' @ cfg_index cfg @ '':'' @ py_str path"

text \<open>\<^verbatim>\<open>_transfer_data\<close>.\<close>

definition transfer_data ::
  "config \<Rightarrow> host_env \<Rightarrow> string option \<Rightarrow> string option \<Rightarrow> bool \<Rightarrow> bool \<Rightarrow> copy_args
     \<Rightarrow> state \<Rightarrow> state result" where
  "transfer_data cfg e source target remote_source remote_target args s =
     (let source' = (if remote_source then Some (remote_copy_path cfg (worker s) source) else source);
          target' = (if remote_target then Some (remote_copy_path cfg (worker s) target) else target)
      in bindE (execute_cmd e (cfg_copy_cmd cfg source' target' args) True s)
           (\<lambda>(rc, s'). Inr s'))"

section \<open>Remote directories, child script, dependencies\<close>

text \<open>\<^verbatim>\<open>_define_remote_dirs\<close>.\<close>

definition define_remote_dirs :: "config \<Rightarrow> host_env \<Rightarrow> state \<Rightarrow> state" where
  "define_remote_dirs cfg e s =
     (let testplan_path_dirs = ['''', ''var'', ''tmp'', getuser e, ''testplan''];
          rtp = str_join ''/''
                  (testplan_path_dirs @ [''remote_workspaces'', slugify e (cfg_plan_name cfg)])
      in s\<lparr>worker := (worker s)
             \<lparr>p_remote_testplan_path := Some rtp,
              p_remote_testplan_runpath := Some (str_join ''/'' [rtp, ''runpath'', cfg_index cfg])\<rparr>\<rparr>)"

text \<open>\<^verbatim>\<open>_create_remote_dirs\<close>.\<close>

definition create_remote_dirs :: "config \<Rightarrow> host_env \<Rightarrow> state \<Rightarrow> state result" where
  "create_remote_dirs cfg e s =
     bindE (execute_cmd e
              (cfg_ssh_cmd cfg (cfg_index cfg)
                 (str_join '' '' (cfg_remote_mkdir cfg @ [py_str (p_remote_testplan_path (worker s))])))
              True s)
       (\<lambda>(rc, s'). Inr s')"

text \<open>\<^verbatim>\<open>_copy_child_script\<close>.\<close>

definition copy_child_script :: "config \<Rightarrow> host_env \<Rightarrow> state \<Rightarrow> state result" where
  "copy_child_script cfg e s =
     (let w = worker s;
          child_remote = py_str (p_remote_testplan_path w) @ ''/child.py'';
          s1 = s\<lparr>worker := w\<lparr>p_child_paths := (p_child_paths w)\<lparr>remote := Some child_remote\<rparr>\<rparr>\<rparr>
      in transfer_data cfg e (local (p_child_paths w)) (Some child_remote) False True NoArgs s1)"

text \<open>\<^verbatim>\<open>_copy_dependencies_module\<close>.\<close>

definition copy_dependencies_module :: "config \<Rightarrow> host_env \<Rightarrow> state \<Rightarrow> state result" where
  "copy_dependencies_module cfg e s =
     (case environ e ''TESTPLAN_DEPENDENCIES_PATH'' of
        None \<Rightarrow> Inr s
      | Some path \<Rightarrow>
          transfer_data cfg e
            (Some (path @ ''/dependencies.py''))
            (Some (py_str (p_remote_testplan_path (worker s)) @ ''/dependencies.py''))
            False True NoArgs s)"

section \<open>Workspace staging\<close>

text \<open>
  The workspace check at the start of \<^verbatim>\<open>_prepare_remote\<close>: when a check is
  configured, its command runs unchecked and the workspace is to be transferred unless it
  exits with 0.
\<close>

definition check_workspace :: "config \<Rightarrow> host_env \<Rightarrow> string \<Rightarrow> state \<Rightarrow> state result" where
  "check_workspace cfg e ws_local s =
     (case cfg_copy_workspace_check cfg of
        None \<Rightarrow> Inr s
      | Some chk \<Rightarrow>
          bindE (execute_cmd e (chk (cfg_ssh_cmd cfg) (cfg_index cfg) ws_local) False s)
            (\<lambda>(rc, s'). Inr (s'\<lparr>worker := (worker s')\<lparr>p_should_transfer_workspace := (rc \<noteq> 0)\<rparr>\<rparr>)))"

text \<open>
  \<^verbatim>\<open>_copy_workspace\<close>: link to the configured remote workspace, transfer, or link to
  the local path.
\<close>

definition copy_workspace :: "config \<Rightarrow> host_env \<Rightarrow> state \<Rightarrow> state result" where
  "copy_workspace cfg e s =
     (let w = worker s in
      case local (p_workspace_paths w) of
        None \<Rightarrow> Inl (AttributeError ''split'')
      | Some ws_local \<Rightarrow>
          (let ws_remote = py_str (p_remote_testplan_path w) @ ''/''
                             @ last (str_split (os_sep e) ws_local);
               s1 = s\<lparr>worker := w\<lparr>p_workspace_paths := (p_workspace_paths w)\<lparr>remote := Some ws_remote\<rparr>\<rparr>\<rparr>
           in case if_truthy (cfg_remote_workspace cfg) of
                Some remote_workspace \<Rightarrow>
                  bindE (execute_cmd e
                           (cfg_ssh_cmd cfg (cfg_index cfg)
                              (str_join '' ''
                                 (cfg_link_cmd cfg (fix_home_prefix e remote_workspace) ws_remote)))
                           True s1)
                    (\<lambda>(rc, s2). Inr s2)
              | None \<Rightarrow>
                  if p_should_transfer_workspace w
                  then bindE (transfer_data cfg e (Some ws_local) (p_remote_testplan_path w)
                                False True (Exclude (cfg_workspace_exclude cfg)) s1)
                         (\<lambda>s2. Inr (s2\<lparr>worker := (worker s2)
                                    \<lparr>setup_metadata := (setup_metadata (worker s2))
                                       \<lparr>workspace_pushed := True\<rparr>\<rparr>\<rparr>))
                  else bindE (execute_cmd e
                                (cfg_ssh_cmd cfg (cfg_index cfg)
                                   (str_join '' '' (cfg_link_cmd cfg ws_local ws_remote)))
                                True s1)
                         (\<lambda>(rc, s2). Inr s2)))"

text \<open>\<^verbatim>\<open>_remote_working_dir\<close>.\<close>

definition remote_working_dir :: "host_env \<Rightarrow> RemoteWorker \<Rightarrow> string result" where
  "remote_working_dir e w =
     (case local (p_working_dirs w) of
        None \<Rightarrow> Inl (TypeError ''is_subdir'')
      | Some cwd \<Rightarrow>
          (case local (p_workspace_paths w) of
             None \<Rightarrow> Inl (TypeError ''is_subdir'')
           | Some ws \<Rightarrow>
               if \<not> is_subdir e cwd ws
               then Inl (RuntimeError (WorkingDirOutsideWorkspace ws cwd))
               else (case remote (p_workspace_paths w) of
                       None \<Rightarrow> Inl (TypeError ''join'')
                     | Some ws_remote \<Rightarrow>
                         Inr (to_posix_path e (path_join e ws_remote (relpath e cwd ws))))))"

section \<open>Pushing files\<close>

text \<open>\<^verbatim>\<open>_to_relative_push_dest\<close>.\<close>

definition to_relative_push_dest ::
  "config \<Rightarrow> host_env \<Rightarrow> RemoteWorker \<Rightarrow> string \<Rightarrow> string result" where
  "to_relative_push_dest cfg e w local_path =
     (case cfg_push_relative_dir cfg of
        None \<Rightarrow> Inl (TypeError ''is_subdir'')
      | Some relative_root \<Rightarrow>
          if \<not> is_subdir e local_path relative_root
          then Inl (RuntimeError (PushNotUnderRoot local_path relative_root))
          else (case p_remote_push_dir w of
                  None \<Rightarrow> Inl (AttributeError ''_remote_push_dir'')
                | Some rpd \<Rightarrow>
                    Inr (str_join ''/''
                           [rpd, to_posix_path e (relpath e local_path relative_root)])))"

text \<open>
  \<^verbatim>\<open>_build_push_dests\<close>.  With a relative root the remote push directory is stored
  in \<^verbatim>\<open>self._remote_push_dir\<close>, created on the remote host and recorded in the setup
  metadata.
\<close>

definition build_push_dests ::
  "config \<Rightarrow> host_env \<Rightarrow> string list \<Rightarrow> state \<Rightarrow> (string list \<times> state) result" where
  "build_push_dests cfg e push_sources s =
     (case if_truthy (cfg_push_relative_dir cfg) of
        Some root \<Rightarrow>
          (case p_remote_testplan_path (worker s) of
             None \<Rightarrow> Inl (TypeError ''join'')
           | Some rtp \<Rightarrow>
               (let rpd = str_join ''/'' [rtp, ''push_files''];
                    s1 = s\<lparr>worker := (worker s)\<lparr>p_remote_push_dir := Some rpd\<rparr>\<rparr>
                in bindE (mkdir_remote cfg e rpd s1)
                     (\<lambda>s2.
                        let s3 = s2\<lparr>worker := (worker s2)
                                   \<lparr>setup_metadata := (setup_metadata (worker s2))
                                      \<lparr>push_dir := p_remote_push_dir (worker s2)\<rparr>\<rparr>\<rparr>
                        in bindE (mapE (to_relative_push_dest cfg e (worker s3)) push_sources)
                             (\<lambda>push_dsts. Inr (push_dsts, s3)))))
      | None \<Rightarrow> Inr (map (to_posix_path e) push_sources, s))"

text \<open>
  The elements of \<^verbatim>\<open>push\<close> as Python sees them: \<open>as_string\<close> is defined on the
  elements that pass \<^verbatim>\<open>isinstance(cfg, six.string_types)\<close>, \<open>item_len\<close> is
  \<^verbatim>\<open>len\<close>, and \<open>unpack_pair\<close> is the unpacking \<^verbatim>\<open>source, dest = item\<close>, which
  succeeds on a sequence of length two: a tuple of two strings, or a string of two
  characters.
\<close>

fun as_string :: "push_item \<Rightarrow> string option" where
  "as_string (PStr s) = Some s"
| "as_string (PTuple t) = None"

fun item_len :: "push_item \<Rightarrow> nat" where
  "item_len (PStr s) = length s"
| "item_len (PTuple t) = length t"

fun unpack_pair :: "push_item \<Rightarrow> (string \<times> string) option" where
  "unpack_pair (PTuple [source, dest]) = Some (source, dest)"
| "unpack_pair (PStr [source, dest]) = Some ([source], [dest])"
| "unpack_pair _ = None"

text \<open>
  The loop of \<^verbatim>\<open>_build_push_lists\<close> that separates the sources into files and
  directories; an item that is neither is logged and skipped.
\<close>

fun separate_push ::
  "host_env \<Rightarrow> push_item list \<Rightarrow> string LocationPaths list \<Rightarrow> string LocationPaths list
     \<Rightarrow> state \<Rightarrow> ((string LocationPaths list \<times> string LocationPaths list) \<times> state) result" where
  "separate_push e [] files dirs s = Inr ((files, dirs), s)"
| "separate_push e (item # items) files dirs s =
     (case unpack_pair item of
        None \<Rightarrow> Inl (ValueError ''unpack'')
      | Some (source0, dest) \<Rightarrow>
          (let source = str_rstrip (os_sep e) source0 in
           if isfile e source
           then separate_push e items (files @ [\<lparr>local = source, remote = dest\<rparr>]) dirs s
           else if isdir e source
           then separate_push e items files (dirs @ [\<lparr>local = source, remote = dest\<rparr>]) s
           else separate_push e items files dirs
                  (s\<lparr>logged := logged s @
                      [LogError (''Item '' @ [CHR 0x22] @ source @ [CHR 0x22]
                                 @ '' cannot be pushed!'')]\<rparr>)))"

text \<open>
  The shape detection at the start of \<^verbatim>\<open>_build_push_lists\<close>: the pairs of source
  and destination.  \<open>those (map as_string push)\<close> is \<open>Some\<close> of the strings exactly
  when every element is a string; a pair of \<^verbatim>\<open>zip\<close> is a tuple of two strings.
\<close>

definition push_locations ::
  "config \<Rightarrow> host_env \<Rightarrow> push_item list \<Rightarrow> state \<Rightarrow> (push_item list \<times> state) result" where
  "push_locations cfg e push s =
     (case those (map as_string push) of
        Some push_sources \<Rightarrow>
          bindE (build_push_dests cfg e push_sources s)
            (\<lambda>(push_dsts, s1).
               Inr (map (\<lambda>(source, dest). PTuple [source, dest])
                      (zip push_sources push_dsts), s1))
      | None \<Rightarrow>
          if \<not> list_all (\<lambda>pair. item_len pair = 2) push
          then Inl (TypeError
            ''Expected either a list of 2-tuples or list of strings for push config.'')
          else Inr (push,
            if truthy (cfg_push_relative_dir cfg)
            then s\<lparr>logged := logged s @
                   [LogWarning (''Ignoring push_relative_dir configuration ''
                      @ ''as explicit destination paths have been provided.'')]\<rparr>
            else s))"

text \<open>
  \<^verbatim>\<open>_build_push_lists\<close>: shape detection, separation into files and directories,
  deduplication of the directories.
\<close>

definition build_push_lists ::
  "config \<Rightarrow> host_env \<Rightarrow> state
     \<Rightarrow> ((string LocationPaths list \<times> string LocationPaths list) \<times> state) result" where
  "build_push_lists cfg e s =
     (case cfg_push cfg of
        None \<Rightarrow> Inl (TypeError ''iter'')
      | Some push \<Rightarrow>
          bindE (push_locations cfg e push s)
            (\<lambda>(locs, s1).
               bindE (separate_push e locs [] [] s1)
                 (\<lambda>((files, dirs), s2).
                    bindE (dedup_push_dirs dirs)
                      (\<lambda>dirs'. Inr ((files, dirs'), s2)))))"

text \<open>\<^verbatim>\<open>_push_files_to_dst\<close>: for each pair, create the remote parent directory,
  then transfer.\<close>

fun push_files_to_dst ::
  "config \<Rightarrow> host_env \<Rightarrow> string LocationPaths list \<Rightarrow> state \<Rightarrow> state result" where
  "push_files_to_dst cfg e [] s = Inr s"
| "push_files_to_dst cfg e (p # ps) s =
     bindE (mkdir_remote cfg e (rpartition_head CHR ''/'' (remote p)) s)
       (\<lambda>s1. bindE (transfer_data cfg e (Some (local p)) (Some (remote p)) False True
                       (Exclude (cfg_push_exclude cfg)) s1)
                (push_files_to_dst cfg e ps))"

text \<open>\<^verbatim>\<open>_push_files\<close> (the name \<open>push_files\<close> is the metadata field).\<close>

definition p_push_files :: "config \<Rightarrow> host_env \<Rightarrow> state \<Rightarrow> state result" where
  "p_push_files cfg e s =
     (if \<not> truthy (cfg_push cfg)
      then Inr (if truthy (cfg_push_exclude cfg) \<or> truthy (cfg_push_relative_dir cfg)
                then s\<lparr>logged := logged s @
                       [LogWarning (''Not been given any files to push - ''
                          @ ''ignoring push configuration options.'')]\<rparr>
                else s)
      else bindE (build_push_lists cfg e s)
             (\<lambda>((files, dirs), s1).
                let s2 = s1\<lparr>worker := (worker s1)
                           \<lparr>setup_metadata := (setup_metadata (worker s1))
                              \<lparr>push_files := Some (map remote files),
                               push_dirs := Some (map remote dirs)\<rparr>\<rparr>\<rparr>
                in push_files_to_dst cfg e (files @ dirs) s2))"

section \<open>Preparing the remote host\<close>

text \<open>\<^verbatim>\<open>_prepare_remote\<close>.\<close>

definition prepare_remote :: "config \<Rightarrow> host_env \<Rightarrow> state \<Rightarrow> state result" where
  "prepare_remote cfg e s =
     (let ws_local = fix_home_prefix e (cfg_workspace cfg);
          s0 = s\<lparr>worker := (worker s)
                 \<lparr>p_child_paths := (p_child_paths (worker s))\<lparr>local := Some (child_path e)\<rparr>,
                  p_workspace_paths := (p_workspace_paths (worker s))\<lparr>local := Some ws_local\<rparr>\<rparr>\<rparr>
      in bindE (check_workspace cfg e ws_local s0) (\<lambda>s1.
         bindE (create_remote_dirs cfg e (define_remote_dirs cfg e s1)) (\<lambda>s2.
         bindE (copy_child_script cfg e s2) (\<lambda>s3.
         bindE (copy_dependencies_module cfg e s3) (\<lambda>s4.
         bindE (copy_workspace cfg e s4) (\<lambda>s5.
         let s6 = s5\<lparr>worker := (worker s5)
                    \<lparr>p_working_dirs := (p_working_dirs (worker s5))\<lparr>local := Some (pwd e)\<rparr>\<rparr>\<rparr>
         in bindE (remote_working_dir e (worker s6)) (\<lambda>wd.
         let s7 = s6\<lparr>worker := (worker s6)
                    \<lparr>p_working_dirs := (p_working_dirs (worker s6))\<lparr>remote := Some wd\<rparr>\<rparr>\<rparr>
         in bindE (p_push_files cfg e s7) (\<lambda>s8.
         Inr (s8\<lparr>worker := (worker s8)
                 \<lparr>setup_metadata := (setup_metadata (worker s8))
                    \<lparr>setup_script := cfg_setup_script cfg,
                     env := cfg_env cfg,
                     workspace_paths := Some (p_workspace_paths (worker s8))\<rparr>\<rparr>\<rparr>)))))))))"

section \<open>The command of the child process\<close>

text \<open>\<^verbatim>\<open>_add_testplan_import_path\<close>; the command is a list whose elements may be
  \<^verbatim>\<open>None\<close> until it is joined.\<close>

definition add_testplan_import_path ::
  "config \<Rightarrow> host_env \<Rightarrow> RemoteWorker \<Rightarrow> string option list \<Rightarrow> string option
     \<Rightarrow> string option list result" where
  "add_testplan_import_path cfg e w command flag =
     (let flagged = (case flag of None \<Rightarrow> command | Some f \<Rightarrow> command @ [Some f]) in
      case if_truthy (cfg_testplan_path cfg) of
        Some tp \<Rightarrow> Inr (flagged @ [Some tp])
      | None \<Rightarrow>
          (case local (p_workspace_paths w) of
             None \<Rightarrow> Inl (TypeError ''startswith'')
           | Some ws_local \<Rightarrow>
               if \<not> prefix ws_local (testplan_abspath e) then Inr command
               else (let common_prefix = longest_common_prefix (testplan_abspath e) ws_local in
                     Inr (flagged @
                       [Some (py_str (remote (p_workspace_paths w)) @ ''/'' @
                          str_join ''/''
                            (str_split (os_sep e)
                               (relpath e (testplan_abspath e) common_prefix)))]))))"

text \<open>\<^verbatim>\<open>_add_testplan_deps_import_path\<close>.\<close>

definition add_testplan_deps_import_path ::
  "host_env \<Rightarrow> string option list \<Rightarrow> string option \<Rightarrow> string option list" where
  "add_testplan_deps_import_path e command flag =
     (case if_truthy (environ e (deps_env_name e)) of
        None \<Rightarrow> command
      | Some deps \<Rightarrow>
          (case flag of None \<Rightarrow> command | Some f \<Rightarrow> command @ [Some f]) @ [Some deps])"

text \<open>The interpreter chosen at the start of \<^verbatim>\<open>_proc_cmd\<close>.\<close>

definition python_binary :: "host_env \<Rightarrow> string result" where
  "python_binary e =
     (if platform_system e = ''Windows''
      then (if prefix ''3'' (python_version e)
            then (case environ e ''PYTHON3_REMOTE_BINARY'' of
                    None \<Rightarrow> Inl (KeyError ''PYTHON3_REMOTE_BINARY'') | Some b \<Rightarrow> Inr b)
            else (case environ e ''PYTHON2_REMOTE_BINARY'' of
                    None \<Rightarrow> Inl (KeyError ''PYTHON2_REMOTE_BINARY'') | Some b \<Rightarrow> Inr b))
      else Inr (sys_executable e))"

text \<open>The list \<^verbatim>\<open>cmd\<close> that \<^verbatim>\<open>_proc_cmd\<close> builds, before it is joined.\<close>

definition proc_cmd_args :: "config \<Rightarrow> host_env \<Rightarrow> RemoteWorker \<Rightarrow> string option list result" where
  "proc_cmd_args cfg e w =
     bindE (python_binary e) (\<lambda>python.
       let command =
             [Some python, Some ''-uB'',
              remote (p_child_paths w),
              Some ''--index'', Some (cfg_index cfg),
              Some ''--address'', Some (transport_address e),
              Some ''--type'', Some ''remote_worker'',
              Some ''--log-level'', Some (str_int (effective_level e)),
              Some ''--wd'', remote (p_working_dirs w),
              Some ''--runpath'', p_remote_testplan_runpath w,
              Some ''--remote-pool-type'', Some (cfg_pool_type cfg),
              Some ''--remote-pool-size'', Some (str_int (cfg_workers cfg))]
       in bindE (add_testplan_import_path cfg e w command (Some ''--testplan''))
            (\<lambda>command1.
               Inr (if \<not> p_should_transfer_workspace w
                    then add_testplan_deps_import_path e command1 (Some ''--testplan-deps'')
                    else command1)))"

text \<open>\<^verbatim>\<open>_proc_cmd\<close>: the list joined by spaces (a \<^verbatim>\<open>None\<close> element raises) and
  wrapped by \<^verbatim>\<open>ssh_cmd\<close>.\<close>

definition proc_cmd :: "config \<Rightarrow> host_env \<Rightarrow> RemoteWorker \<Rightarrow> string list result" where
  "proc_cmd cfg e w =
     bindE (proc_cmd_args cfg e w) (\<lambda>command.
       case those command of
         None \<Rightarrow> Inl (TypeError ''join'')
       | Some tokens \<Rightarrow> Inr (cfg_ssh_cmd cfg (cfg_index cfg) (str_join '' '' tokens)))"

section \<open>The pool's handler of MetadataPull\<close>

text \<open>
  Modelled from the spec: \<^verbatim>\<open>response.make\<close> and \<^verbatim>\<open>worker.respond\<close> belong to the
  message and worker base classes, which are outside this module.  The spec has the
  handler respond with a \<^verbatim>\<open>Metadata\<close> message carrying the worker's setup metadata:
  \<open>make\<close> builds a message from a command and its data, \<open>respond\<close> sends it.
\<close>

definition make :: "message_cmd \<Rightarrow> WorkerSetupMetadata \<Rightarrow> message" where
  "make c d = \<lparr>cmd = c, data = Some d\<rparr>"

definition respond :: "message \<Rightarrow> state \<Rightarrow> state" where
  "respond msg s = s\<lparr>responses := responses s @ [msg]\<rparr>"

text \<open>\<^verbatim>\<open>RemotePool._worker_setup_metadata\<close>.\<close>

definition worker_setup_metadata :: "state \<Rightarrow> state" where
  "worker_setup_metadata s = respond (make Metadata (setup_metadata (worker s))) s"

section \<open>Auxiliary functions for the proofs\<close>

text \<open>
  The marking loop and the final filter of the deduplication as structural recursions
  over the sorted list; they are shown below to compute what \<open>dedup_push_dirs\<close> does.
\<close>

fun mark_prefixed :: "string LocationPaths list \<Rightarrow> string LocationPaths option list" where
  "mark_prefixed [] = []"
| "mark_prefixed [x] = [Some x]"
| "mark_prefixed (x # y # zs) =
     (if prefix (local x) (local y) then None else Some x) # mark_prefixed (y # zs)"

fun drop_prefixed :: "string LocationPaths list \<Rightarrow> string LocationPaths list" where
  "drop_prefixed [] = []"
| "drop_prefixed [x] = [x]"
| "drop_prefixed (x # y # zs) =
     (if prefix (local x) (local y) then drop_prefixed (y # zs) else x # drop_prefixed (y # zs))"

section \<open>The path helpers outside the module\<close>

text \<open>
  Modelled from the spec: \<^verbatim>\<open>is_subdir\<close> and \<^verbatim>\<open>to_posix_path\<close> belong to
  \<^verbatim>\<open>testplan.common.utils.path\<close>, which is outside this module.  The spec gives the
  path component "POSIX conversion" and "subdir checks", asks that the local working
  directory be a subdirectory of the local workspace, and that the POSIX form of a path
  have no separator of the local host left.  A path is within a directory when it is that
  directory or continues it after a separator; the POSIX form of a path has every
  separator of the local host replaced by a slash.
\<close>

definition is_subdir_spec :: "char \<Rightarrow> string \<Rightarrow> string \<Rightarrow> bool" where
  "is_subdir_spec sep child parent \<longleftrightarrow> child = parent \<or> prefix (parent @ [sep]) child"

definition to_posix_path_spec :: "char \<Rightarrow> string \<Rightarrow> string" where
  "to_posix_path_spec sep p = map (\<lambda>c. if c = sep then CHR ''/'' else c) p"

section \<open>Example hosts and configurations\<close>

text \<open>
  Concrete inputs on which the theorems below are exercised: a POSIX host of user
  \<open>u\<close> whose commands all succeed, a host with backslash as separator, and a pool
  configuration for the plan \<open>plan\<close> on host \<open>h1\<close>.
\<close>

definition same_path :: "string \<Rightarrow> string LocationPaths" where
  "same_path p = \<lparr>local = p, remote = p\<rparr>"

definition posix_env :: host_env where
  "posix_env =
     \<lparr>getuser = ''u'',
      os_sep = CHR ''/'',
      environ = (\<lambda>name. None),
      isfile = (\<lambda>p. p \<in> set [''/home/u/ws/a/x.txt'', ''/etc/cfg.yml'']),
      isdir = (\<lambda>p. p \<in> set [''/a'', ''/a/b'', ''/a/c'', ''/b'', ''/d'']),
      is_subdir = is_subdir_spec CHR ''/'',
      to_posix_path = to_posix_path_spec CHR ''/'',
      relpath = (\<lambda>p start. if p = start then ''.'' else drop (length start + 1) p),
      path_join = (\<lambda>a b. a @ ''/'' @ b),
      slugify = (\<lambda>name. name),
      fix_home_prefix = (\<lambda>p. p),
      pwd = ''/home/u/ws/t'',
      child_path = ''/opt/testplan/child.py'',
      platform_system = ''Linux'',
      python_version = ''3.7.1'',
      sys_executable = ''/usr/bin/python'',
      effective_level = 30,
      transport_address = ''10.0.0.1:4000'',
      testplan_abspath = ''/opt/lib'',
      deps_env_name = ''TESTPLAN_DEPENDENCIES_PATH'',
      returncode = (\<lambda>history command. 0)\<rparr>"

definition backslash_env :: host_env where
  "backslash_env =
     posix_env
       \<lparr>os_sep := CHR 0x5C,
        is_subdir := is_subdir_spec (CHR 0x5C),
        to_posix_path := to_posix_path_spec (CHR 0x5C),
        path_join := (\<lambda>a b. a @ [CHR 0x5C] @ b)\<rparr>"

definition example_cfg :: config where
  "example_cfg =
     \<lparr>cfg_index = ''h1'',
      cfg_workers = 2,
      cfg_pool_type = ''thread'',
      cfg_plan_name = ''plan'',
      cfg_ssh_cmd = (\<lambda>host command. [''ssh'', host, command]),
      cfg_copy_cmd = (\<lambda>source target args. [''rsync'', py_str source, py_str target]),
      cfg_link_cmd = (\<lambda>path link. [''ln'', ''-sfn'', path, link]),
      cfg_workspace = ''/home/u/ws'',
      cfg_workspace_exclude = Some [],
      cfg_remote_workspace = None,
      cfg_copy_workspace_check = None,
      cfg_env = None,
      cfg_setup_script = None,
      cfg_push = Some [],
      cfg_push_exclude = Some [],
      cfg_push_relative_dir = None,
      cfg_remote_mkdir = [''/bin/mkdir'', ''-p''],
      cfg_testplan_path = None\<rparr>"

text \<open>
  A worker with the bookkeeping of the push stage erased: two workers with the same
  image differ at most in \<^verbatim>\<open>_remote_push_dir\<close> and in the three push fields of the
  setup metadata.
\<close>

definition without_push :: "RemoteWorker \<Rightarrow> RemoteWorker" where
  "without_push w =
     w\<lparr>p_remote_push_dir := None,
       setup_metadata := (setup_metadata w)\<lparr>push_dir := None, push_files := None, push_dirs := None\<rparr>\<rparr>"



text \<open>
  A host on which the dependencies variable is set, and a configuration whose workspace
  check finds the workspace on the remote host.
\<close>

definition deps_env :: host_env where
  "deps_env =
     posix_env
       \<lparr>environ := (\<lambda>name. if name = ''TESTPLAN_DEPENDENCIES_PATH'' then Some ''/deps'' else None)\<rparr>"

definition checked_cfg :: config where
  "checked_cfg =
     example_cfg
       \<lparr>cfg_copy_workspace_check :=
          Some (\<lambda>ssh host path. ssh host (''test -e '' @ path))\<rparr>"

text \<open>
  A push list relative to the workspace, and a push list that mixes a string with a
  tuple.
\<close>

definition relative_cfg :: config where
  "relative_cfg =
     example_cfg
       \<lparr>cfg_push := Some [PStr ''/home/u/ws/a/x.txt''],
        cfg_push_relative_dir := Some ''/home/u/ws''\<rparr>"

definition mixed_cfg :: config where
  "mixed_cfg = example_cfg\<lparr>cfg_push := Some [PStr ''/a'', PTuple [''/b'', ''/c'']]\<rparr>"


section \<open>Deduplication: what the loop computes\<close>

lemma drop_prefixed_mark:
  "map the (filter (\<lambda>d. d \<noteq> None) (mark_prefixed zs)) = drop_prefixed zs"
  by (induction zs rule: mark_prefixed.induct) auto

lemma dedup_loop_mark:
  "dedup_loop [length pre ..< length pre + length zs - 1] (pre @ map Some zs)
     = Inr (pre @ mark_prefixed zs)"
proof (induction zs arbitrary: pre rule: mark_prefixed.induct)
  case 1
  then show ?case by simp
next
  case (2 x)
  then show ?case by simp
next
  case (3 x y zs)
  let ?m = "if prefix (local x) (local y) then None else Some x"
  have step: "dedup_step (length pre) (pre @ map Some (x # y # zs))
                = Inr ((pre @ [?m]) @ map Some (y # zs))"
    by (simp add: dedup_step_def nth_append)
  have idxs: "[length pre ..< length pre + length (x # y # zs) - 1]
                = length pre # [length (pre @ [?m]) ..< length (pre @ [?m]) + length (y # zs) - 1]"
    by (simp add: upt_rec)
  show ?case
    unfolding idxs dedup_loop.simps step bindE_def sum.case
    using "3.IH" [of "pre @ [?m]"] by simp
qed

lemma sort_key_short: "length xs \<le> 1 \<Longrightarrow> sort_key f xs = xs"
  by (cases xs) auto

lemma drop_prefixed_short: "length xs \<le> 1 \<Longrightarrow> drop_prefixed xs = xs"
  by (cases xs) auto

lemma dedup_push_dirs_eq:
  "dedup_push_dirs dirs = Inr (drop_prefixed (sort_key local dirs))"
proof (cases "dirs \<noteq> [] \<and> length dirs > 1")
  case True
  have loop: "dedup_loop [0 ..< length dirs - 1] (map Some (sort_key local dirs))
          = Inr (mark_prefixed (sort_key local dirs))"
    using dedup_loop_mark [of "[]" "sort_key local dirs"] by simp
  from True have "dedup_push_dirs dirs =
      bindE (dedup_loop [0 ..< length dirs - 1] (map Some (sort_key local dirs)))
        (\<lambda>marked. Inr (map the (filter (\<lambda>d. d \<noteq> None) marked)))"
    unfolding dedup_push_dirs_def by (rule if_P)
  also have "\<dots> = Inr (map the (filter (\<lambda>d. d \<noteq> None) (mark_prefixed (sort_key local dirs))))"
    unfolding loop bindE_def by (rule sum.case)
  finally show ?thesis
    unfolding drop_prefixed_mark .
next
  case False
  then have short: "length dirs \<le> 1" by (cases dirs) auto
  with False show ?thesis
    by (simp add: dedup_push_dirs_def sort_key_short drop_prefixed_short del: One_nat_def)
qed

subsection \<open>Prefixes in the lexicographic order\<close>

lemma prefix_le: "prefix (x :: 'a :: linorder list) y \<Longrightarrow> x \<le> y"
proof (induction x arbitrary: y)
  case Nil
  then show ?case by simp
next
  case (Cons a x)
  then show ?case by (cases y) auto
qed

lemma prefix_between:
  "(x :: 'a :: linorder list) \<le> y \<Longrightarrow> y \<le> z \<Longrightarrow> prefix x z \<Longrightarrow> prefix x y"
proof (induction x arbitrary: y z)
  case Nil
  then show ?case by simp
next
  case (Cons a x)
  from Cons.prems(3) obtain z' where z: "z = a # z'" and pz: "prefix x z'"
    by (cases z) auto
  from Cons.prems(1) obtain b y' where y: "y = b # y'"
    by (cases y) auto
  from Cons.prems(1,2) have "a = b" "x \<le> y'" "y' \<le> z'"
    unfolding y z by (auto simp: not_less_iff_gr_or_eq)
  with Cons.IH [OF _ _ pz] show ?case unfolding y by simp
qed

subsection \<open>The survivors\<close>

lemma subseq_drop_prefixed: "subseq (drop_prefixed zs) zs"
  by (induction zs rule: drop_prefixed.induct) auto

lemma set_drop_prefixed: "set (drop_prefixed zs) \<subseteq> set zs"
  by (induction zs rule: drop_prefixed.induct) auto

lemma sorted_drop_prefixed:
  "sorted (map local zs) \<Longrightarrow> sorted (map local (drop_prefixed zs))"
proof (induction zs rule: drop_prefixed.induct)
  case (3 x y zs)
  then show ?case using set_drop_prefixed [of "y # zs"] by auto
qed simp_all

lemma drop_prefixed_unrelated:
  "sorted (map local zs) \<Longrightarrow>
   sorted_wrt (\<lambda>x y. \<not> prefix (local x) (local y) \<and> \<not> prefix (local y) (local x))
     (drop_prefixed zs)"
proof (induction zs rule: drop_prefixed.induct)
  case 1
  then show ?case by simp
next
  case (2 x)
  then show ?case by simp
next
  case (3 x y zs)
  from "3.prems" have srt: "sorted (map local (y # zs))" by simp
  show ?case
  proof (cases "prefix (local x) (local y)")
    case True
    with "3.IH"(1) srt show ?thesis by simp
  next
    case False
    have "\<not> prefix (local x) (local w) \<and> \<not> prefix (local w) (local x)"
      if "w \<in> set (drop_prefixed (y # zs))" for w
    proof -
      from that set_drop_prefixed have w: "w \<in> set (y # zs)" by blast
      from "3.prems" w have xy: "local x \<le> local y" and yw: "local y \<le> local w"
        and xw: "local x \<le> local w"
        by auto
      have nxw: "\<not> prefix (local x) (local w)"
        using prefix_between [OF xy yw] False by blast
      moreover have "\<not> prefix (local w) (local x)"
      proof
        assume "prefix (local w) (local x)"
        then have "local w \<le> local x" by (rule prefix_le)
        with xw have "local w = local x" by simp
        with nxw show False by simp
      qed
      ultimately show ?thesis by simp
    qed
    with False "3.IH"(2) srt show ?thesis by simp
  qed
qed

text \<open>
  C2.  On the directories \<open>/a\<close>, \<open>/a/b\<close>, \<open>/a/c\<close>, \<open>/d\<close> the deduplication of
  \<^verbatim>\<open>_build_push_lists\<close> returns \<open>/a/b\<close>, \<open>/a/c\<close>, \<open>/d\<close>: the entry that is set to
  \<^verbatim>\<open>None\<close> is the one at \<open>idx\<close>, the parent \<open>/a\<close>, and its sub-directories stay.
\<close>

theorem dedup_push_dirs_example:
  "dedup_push_dirs [same_path ''/a'', same_path ''/a/b'', same_path ''/a/c'', same_path ''/d'']
     = Inr [same_path ''/a/b'', same_path ''/a/c'', same_path ''/d'']"
  by (simp add: dedup_push_dirs_def dedup_step_def bindE_def same_path_def upt_rec)

text \<open>
  C3, as the source has it.  For every list of push directories the deduplication
  returns a list in which no element's local path is a prefix of the local path of an
  element at another position; the survivors are in ascending order of their local
  paths, in the order they have in the sorted input.
\<close>

theorem dedup_push_dirs_no_prefix:
  "\<exists>r. dedup_push_dirs dirs = Inr r
     \<and> (\<forall>i<length r. \<forall>j<length r. i \<noteq> j \<longrightarrow> \<not> prefix (local (r ! i)) (local (r ! j)))
     \<and> sorted (map local r)
     \<and> subseq r (sort_key local dirs)"
proof -
  let ?r = "drop_prefixed (sort_key local dirs)"
  have srt: "sorted (map local (sort_key local dirs))" by simp
  have rel: "sorted_wrt (\<lambda>x y. \<not> prefix (local x) (local y) \<and> \<not> prefix (local y) (local x)) ?r"
    using drop_prefixed_unrelated [OF srt] .
  have "\<not> prefix (local (?r ! i)) (local (?r ! j))"
    if "i < length ?r" "j < length ?r" "i \<noteq> j" for i j
  proof (cases "i < j")
    case True
    with rel that show ?thesis by (simp add: sorted_wrt_iff_nth_less)
  next
    case False
    with that have "j < i" by simp
    with rel that show ?thesis by (simp add: sorted_wrt_iff_nth_less)
  qed
  moreover have "sorted (map local ?r)" using sorted_drop_prefixed [OF srt] .
  moreover have "subseq ?r (sort_key local dirs)" by (rule subseq_drop_prefixed)
  ultimately show ?thesis unfolding dedup_push_dirs_eq by blast
qed

theorem dedup_push_dirs_no_prefix_witness:
  "dedup_push_dirs [same_path ''/d'', same_path ''/a'', same_path ''/a/b'']
     = Inr [same_path ''/a/b'', same_path ''/d'']
   \<and> \<not> prefix ''/a/b'' ''/d'' \<and> \<not> prefix ''/d'' ''/a/b''
   \<and> sorted [''/a/b'', ''/d'']"
proof -
  let ?dirs = "[same_path ''/d'', same_path ''/a'', same_path ''/a/b'']"
  let ?out = "[same_path ''/a/b'', same_path ''/d'']"
  have run: "dedup_push_dirs ?dirs = Inr ?out"
    by (simp add: dedup_push_dirs_def dedup_step_def bindE_def same_path_def upt_rec)
  from dedup_push_dirs_no_prefix [of ?dirs] obtain r where
    r: "dedup_push_dirs ?dirs = Inr r"
    and np: "\<forall>i<length r. \<forall>j<length r. i \<noteq> j \<longrightarrow> \<not> prefix (local (r ! i)) (local (r ! j))"
    and srt: "sorted (map local r)"
    by blast
  from r run have req: "r = ?out" by simp
  have "\<not> prefix (local (r ! 0)) (local (r ! 1))" "\<not> prefix (local (r ! 1)) (local (r ! 0))"
    using np [rule_format, of 0 1] np [rule_format, of 1 0] unfolding req by simp_all
  with srt run show ?thesis unfolding req by (simp add: same_path_def)
qed

text \<open>
  The order of the input is not kept: \<open>/d\<close> before \<open>/a\<close> comes back as \<open>/a\<close> before
  \<open>/d\<close>.
\<close>

theorem dedup_push_dirs_input_order_counterexample:
  "dedup_push_dirs [same_path ''/d'', same_path ''/a''] = Inr [same_path ''/a'', same_path ''/d'']
   \<and> \<not> subseq [same_path ''/a'', same_path ''/d''] [same_path ''/d'', same_path ''/a'']"
  by (simp add: dedup_push_dirs_def dedup_step_def bindE_def same_path_def upt_rec)

section \<open>Results of the single steps\<close>

lemma bindE_Inr_iff: "bindE m f = Inr y \<longleftrightarrow> (\<exists>x. m = Inr x \<and> f x = Inr y)"
  by (cases m) (simp_all add: bindE_def)

lemma bindE_Inr [simp]: "bindE (Inr x) f = f x"
  by (simp add: bindE_def)

lemma bindE_Inl [simp]: "bindE (Inl err) f = Inl err"
  by (simp add: bindE_def)

lemma execute_cmd_Inr:
  "execute_cmd e c chk s = Inr (rc, s') \<Longrightarrow>
     s' = s\<lparr>executed := executed s @ [c]\<rparr> \<and> rc = returncode e (executed s) c \<and> (chk \<longrightarrow> rc = 0)"
  by (auto simp: execute_cmd_def Let_def split: if_splits)

lemma mkdir_remote_Inr:
  "mkdir_remote cfg e d s = Inr s' \<Longrightarrow> \<exists>c. s' = s\<lparr>executed := executed s @ [c]\<rparr>"
  by (auto simp: mkdir_remote_def bindE_Inr_iff dest!: execute_cmd_Inr)

lemma transfer_data_Inr:
  "transfer_data cfg e src tgt rs rt args s = Inr s' \<Longrightarrow>
     \<exists>c. s' = s\<lparr>executed := executed s @ [c]\<rparr>"
  by (auto simp: transfer_data_def Let_def bindE_Inr_iff dest!: execute_cmd_Inr)

lemma create_remote_dirs_Inr:
  "create_remote_dirs cfg e s = Inr s' \<Longrightarrow> \<exists>c. s' = s\<lparr>executed := executed s @ [c]\<rparr>"
  by (auto simp: create_remote_dirs_def bindE_Inr_iff dest!: execute_cmd_Inr)

lemma copy_child_script_Inr:
  "copy_child_script cfg e s = Inr s' \<Longrightarrow>
     worker s' = (worker s)\<lparr>p_child_paths := (p_child_paths (worker s))
        \<lparr>remote := Some (py_str (p_remote_testplan_path (worker s)) @ ''/child.py'')\<rparr>\<rparr>"
  by (auto simp: copy_child_script_def Let_def dest!: transfer_data_Inr)

lemma copy_dependencies_module_Inr:
  "copy_dependencies_module cfg e s = Inr s' \<Longrightarrow> worker s' = worker s"
  by (auto simp: copy_dependencies_module_def split: option.splits dest!: transfer_data_Inr)

lemma check_workspace_Inr:
  "check_workspace cfg e ws_local s = Inr s' \<Longrightarrow>
     worker s' = (worker s)\<lparr>p_should_transfer_workspace :=
        (case cfg_copy_workspace_check cfg of
           None \<Rightarrow> p_should_transfer_workspace (worker s)
         | Some chk \<Rightarrow>
             returncode e (executed s) (chk (cfg_ssh_cmd cfg) (cfg_index cfg) ws_local) \<noteq> 0)\<rparr>"
  by (auto simp: check_workspace_def bindE_Inr_iff split: option.splits dest!: execute_cmd_Inr)

lemma copy_workspace_Inr:
  assumes "copy_workspace cfg e s = Inr s'"
  shows "\<exists>ws_local. local (p_workspace_paths (worker s)) = Some ws_local \<and>
     worker s' = (worker s)
       \<lparr>p_workspace_paths := (p_workspace_paths (worker s))
          \<lparr>remote := Some (py_str (p_remote_testplan_path (worker s)) @ ''/''
                            @ last (str_split (os_sep e) ws_local))\<rparr>,
        setup_metadata := (setup_metadata (worker s))
          \<lparr>workspace_pushed :=
             (if \<not> truthy (cfg_remote_workspace cfg) \<and> p_should_transfer_workspace (worker s)
              then True else workspace_pushed (setup_metadata (worker s)))\<rparr>\<rparr>"
  using assms
  by (auto simp: copy_workspace_def Let_def bindE_Inr_iff truthy_def
           split: option.splits if_splits dest!: transfer_data_Inr execute_cmd_Inr)

subsection \<open>The commands the single steps run\<close>

lemma check_workspace_executed:
  "check_workspace cfg e ws_local s = Inr s' \<Longrightarrow>
     executed s' = executed s @
       (case cfg_copy_workspace_check cfg of
          None \<Rightarrow> []
        | Some chk \<Rightarrow> [chk (cfg_ssh_cmd cfg) (cfg_index cfg) ws_local])"
  by (auto simp: check_workspace_def bindE_Inr_iff split: option.splits dest!: execute_cmd_Inr)

lemma create_remote_dirs_executed:
  "create_remote_dirs cfg e s = Inr s' \<Longrightarrow>
     executed s' = executed s @
       [cfg_ssh_cmd cfg (cfg_index cfg)
          (str_join '' '' (cfg_remote_mkdir cfg @ [py_str (p_remote_testplan_path (worker s))]))]"
  by (auto simp: create_remote_dirs_def bindE_Inr_iff dest!: execute_cmd_Inr)

lemma copy_child_script_executed:
  "copy_child_script cfg e s = Inr s' \<Longrightarrow>
     executed s' = executed s @
       [cfg_copy_cmd cfg (local (p_child_paths (worker s)))
          (Some (remote_copy_path cfg (worker s)
                   (Some (py_str (p_remote_testplan_path (worker s)) @ ''/child.py''))))
          NoArgs]"
  by (auto simp: copy_child_script_def transfer_data_def remote_copy_path_def Let_def
        bindE_Inr_iff dest!: execute_cmd_Inr)

lemma copy_dependencies_module_executed:
  "copy_dependencies_module cfg e s = Inr s' \<Longrightarrow>
     executed s' = executed s @
       (case environ e ''TESTPLAN_DEPENDENCIES_PATH'' of
          None \<Rightarrow> []
        | Some path \<Rightarrow>
            [cfg_copy_cmd cfg (Some (path @ ''/dependencies.py''))
               (Some (remote_copy_path cfg (worker s)
                        (Some (py_str (p_remote_testplan_path (worker s)) @ ''/dependencies.py''))))
               NoArgs])"
  by (auto simp: copy_dependencies_module_def transfer_data_def remote_copy_path_def Let_def
        bindE_Inr_iff split: option.splits dest!: execute_cmd_Inr)

text \<open>
  The one command of \<^verbatim>\<open>_copy_workspace\<close>: the copy of the local workspace on the
  transfer path, a link otherwise.
\<close>

lemma copy_workspace_trace:
  assumes "copy_workspace cfg e s = Inr s'"
  shows "\<exists>ws_local. local (p_workspace_paths (worker s)) = Some ws_local \<and>
     executed s' = executed s @
       [if \<not> truthy (cfg_remote_workspace cfg) \<and> p_should_transfer_workspace (worker s)
        then cfg_copy_cmd cfg (Some ws_local)
               (Some (remote_copy_path cfg (worker s) (p_remote_testplan_path (worker s))))
               (Exclude (cfg_workspace_exclude cfg))
        else cfg_ssh_cmd cfg (cfg_index cfg)
               (str_join '' ''
                  (cfg_link_cmd cfg
                     (case if_truthy (cfg_remote_workspace cfg) of
                        Some remote_workspace \<Rightarrow> fix_home_prefix e remote_workspace
                      | None \<Rightarrow> ws_local)
                     (py_str (p_remote_testplan_path (worker s)) @ ''/''
                        @ last (str_split (os_sep e) ws_local))))]"
  using assms
  by (auto simp: copy_workspace_def transfer_data_def remote_copy_path_def Let_def
        bindE_Inr_iff truthy_def
        split: option.splits if_splits dest!: execute_cmd_Inr)

subsection \<open>The push stage changes only its own bookkeeping\<close>

lemma separate_push_Inr:
  "separate_push e items files dirs s = Inr (r, s') \<Longrightarrow>
     worker s' = worker s \<and> executed s' = executed s"
proof (induction items arbitrary: files dirs s)
  case Nil
  then show ?case by simp
next
  case (Cons item items)
  then show ?case
    by (auto simp: Let_def split: option.splits if_splits prod.splits)
qed

lemma build_push_dests_Inr:
  assumes "build_push_dests cfg e srcs s = Inr (dsts, s')"
  shows "if truthy (cfg_push_relative_dir cfg)
         then \<exists>rtp. p_remote_testplan_path (worker s) = Some rtp \<and>
                worker s' = (worker s)
                  \<lparr>p_remote_push_dir := Some (rtp @ ''/push_files''),
                   setup_metadata := (setup_metadata (worker s))
                     \<lparr>push_dir := Some (rtp @ ''/push_files'')\<rparr>\<rparr>
         else s' = s"
  using assms
  by (auto simp: build_push_dests_def Let_def bindE_Inr_iff truthy_def
           split: option.splits dest!: mkdir_remote_Inr)

lemma build_push_dests_without_push:
  "build_push_dests cfg e srcs s = Inr (dsts, s') \<Longrightarrow>
     without_push (worker s') = without_push (worker s)"
  by (drule build_push_dests_Inr) (auto simp: without_push_def split: if_splits)

lemma push_locations_without_push:
  "push_locations cfg e push s = Inr (locs, s1) \<Longrightarrow>
     without_push (worker s1) = without_push (worker s)"
  by (auto simp: push_locations_def bindE_Inr_iff split: option.splits if_splits
           dest!: build_push_dests_without_push)

lemma build_push_lists_without_push:
  assumes "build_push_lists cfg e s = Inr (r, s')"
  shows "without_push (worker s') = without_push (worker s)"
proof -
  from assms obtain push locs s1 files dirs where
    locs: "push_locations cfg e push s = Inr (locs, s1)"
    and sep: "separate_push e locs [] [] s1 = Inr ((files, dirs), s')"
    by (auto simp: build_push_lists_def bindE_Inr_iff split: option.splits)
  from push_locations_without_push [OF locs] separate_push_Inr [OF sep]
  show ?thesis by simp
qed

lemma push_files_to_dst_Inr:
  "push_files_to_dst cfg e ps s = Inr s' \<Longrightarrow> worker s' = worker s"
proof (induction ps arbitrary: s)
  case Nil
  then show ?case by simp
next
  case (Cons p ps)
  then show ?case
    by (auto simp: bindE_Inr_iff dest!: mkdir_remote_Inr transfer_data_Inr)
qed

lemma p_push_files_without_push:
  assumes "p_push_files cfg e s = Inr s'"
  shows "without_push (worker s') = without_push (worker s)"
proof (cases "truthy (cfg_push cfg)")
  case False
  with assms show ?thesis by (auto simp: p_push_files_def split: if_splits)
next
  case True
  with assms obtain files dirs s1 where
    bl: "build_push_lists cfg e s = Inr ((files, dirs), s1)"
    and dst: "push_files_to_dst cfg e (files @ dirs)
                (s1\<lparr>worker := (worker s1)
                      \<lparr>setup_metadata := (setup_metadata (worker s1))
                         \<lparr>push_files := Some (map remote files),
                          push_dirs := Some (map remote dirs)\<rparr>\<rparr>\<rparr>) = Inr s'"
    by (auto simp: p_push_files_def bindE_Inr_iff Let_def)
  from push_files_to_dst_Inr [OF dst] have "without_push (worker s') = without_push (worker s1)"
    by (simp add: without_push_def)
  with build_push_lists_without_push [OF bl] show ?thesis by simp
qed

lemma build_push_dests_executed:
  "build_push_dests cfg e srcs s = Inr (dsts, s') \<Longrightarrow> \<exists>cs. executed s' = executed s @ cs"
  by (auto simp: build_push_dests_def Let_def bindE_Inr_iff
           split: option.splits dest!: mkdir_remote_Inr)

lemma push_locations_executed:
  "push_locations cfg e push s = Inr (locs, s') \<Longrightarrow> \<exists>cs. executed s' = executed s @ cs"
  by (auto simp: push_locations_def bindE_Inr_iff split: option.splits if_splits
           dest!: build_push_dests_executed)

lemma build_push_lists_executed:
  assumes "build_push_lists cfg e s = Inr (r, s')"
  shows "\<exists>cs. executed s' = executed s @ cs"
proof -
  from assms obtain push locs s1 files dirs where
    locs: "push_locations cfg e push s = Inr (locs, s1)"
    and sep: "separate_push e locs [] [] s1 = Inr ((files, dirs), s')"
    by (auto simp: build_push_lists_def bindE_Inr_iff split: option.splits)
  from push_locations_executed [OF locs] separate_push_Inr [OF sep]
  show ?thesis by simp
qed

lemma push_files_to_dst_executed:
  "push_files_to_dst cfg e ps s = Inr s' \<Longrightarrow> \<exists>cs. executed s' = executed s @ cs"
proof (induction ps arbitrary: s)
  case Nil
  then show ?case by simp
next
  case (Cons p ps)
  from Cons.prems obtain s1 s2 where
    m: "mkdir_remote cfg e (rpartition_head CHR ''/'' (remote p)) s = Inr s1"
    and t: "transfer_data cfg e (Some (local p)) (Some (remote p)) False True
              (Exclude (cfg_push_exclude cfg)) s1 = Inr s2"
    and rest: "push_files_to_dst cfg e ps s2 = Inr s'"
    by (auto simp: bindE_Inr_iff)
  from mkdir_remote_Inr [OF m] obtain c1 where "executed s1 = executed s @ [c1]" by auto
  moreover from transfer_data_Inr [OF t] obtain c2 where "executed s2 = executed s1 @ [c2]"
    by auto
  moreover from Cons.IH [OF rest] obtain cs where "executed s' = executed s2 @ cs" by blast
  ultimately have "executed s' = executed s @ (c1 # c2 # cs)" by simp
  then show ?case by blast
qed

lemma p_push_files_executed:
  assumes "p_push_files cfg e s = Inr s'"
  shows "\<exists>cs. executed s' = executed s @ cs \<and> (\<not> truthy (cfg_push cfg) \<longrightarrow> cs = [])"
proof (cases "truthy (cfg_push cfg)")
  case False
  with assms show ?thesis by (auto simp: p_push_files_def split: if_splits)
next
  case True
  with assms obtain files dirs s1 where
    bl: "build_push_lists cfg e s = Inr ((files, dirs), s1)"
    and dst: "push_files_to_dst cfg e (files @ dirs)
                (s1\<lparr>worker := (worker s1)
                      \<lparr>setup_metadata := (setup_metadata (worker s1))
                         \<lparr>push_files := Some (map remote files),
                          push_dirs := Some (map remote dirs)\<rparr>\<rparr>\<rparr>) = Inr s'"
    by (auto simp: p_push_files_def bindE_Inr_iff Let_def)
  from build_push_lists_executed [OF bl] obtain cs1 where "executed s1 = executed s @ cs1"
    by blast
  moreover from push_files_to_dst_executed [OF dst] obtain cs2 where
    "executed s' = executed s1 @ cs2" by auto
  ultimately have "executed s' = executed s @ (cs1 @ cs2)" by simp
  with True show ?thesis by blast
qed

lemma without_push_fields:
  assumes "without_push w' = without_push w"
  shows "p_remote_testplan_path w' = p_remote_testplan_path w"
    and "p_remote_testplan_runpath w' = p_remote_testplan_runpath w"
    and "p_user w' = p_user w"
    and "p_workspace_paths w' = p_workspace_paths w"
    and "p_child_paths w' = p_child_paths w"
    and "p_working_dirs w' = p_working_dirs w"
    and "p_should_transfer_workspace w' = p_should_transfer_workspace w"
    and "remote_push_dir w' = remote_push_dir w"
    and "workspace_pushed (setup_metadata w') = workspace_pushed (setup_metadata w)"
proof -
  have "p_remote_testplan_path (without_push w') = p_remote_testplan_path (without_push w)"
    using assms by simp
  then show "p_remote_testplan_path w' = p_remote_testplan_path w"
    by (simp add: without_push_def)
  have "p_remote_testplan_runpath (without_push w') = p_remote_testplan_runpath (without_push w)"
    using assms by simp
  then show "p_remote_testplan_runpath w' = p_remote_testplan_runpath w"
    by (simp add: without_push_def)
  have "p_user (without_push w') = p_user (without_push w)"
    using assms by simp
  then show "p_user w' = p_user w"
    by (simp add: without_push_def)
  have "p_workspace_paths (without_push w') = p_workspace_paths (without_push w)"
    using assms by simp
  then show "p_workspace_paths w' = p_workspace_paths w"
    by (simp add: without_push_def)
  have "p_child_paths (without_push w') = p_child_paths (without_push w)"
    using assms by simp
  then show "p_child_paths w' = p_child_paths w"
    by (simp add: without_push_def)
  have "p_working_dirs (without_push w') = p_working_dirs (without_push w)"
    using assms by simp
  then show "p_working_dirs w' = p_working_dirs w"
    by (simp add: without_push_def)
  have "p_should_transfer_workspace (without_push w') = p_should_transfer_workspace (without_push w)"
    using assms by simp
  then show "p_should_transfer_workspace w' = p_should_transfer_workspace w"
    by (simp add: without_push_def)
  have "remote_push_dir (without_push w') = remote_push_dir (without_push w)"
    using assms by simp
  then show "remote_push_dir w' = remote_push_dir w"
    by (simp add: without_push_def)
  have "workspace_pushed (setup_metadata (without_push w'))
          = workspace_pushed (setup_metadata (without_push w))"
    using assms by simp
  then show "workspace_pushed (setup_metadata w') = workspace_pushed (setup_metadata w)"
    by (simp add: without_push_def)
qed

subsection \<open>The worker after \<^verbatim>\<open>_prepare_remote\<close>\<close>

lemma str_join_slash_root:
  "str_join ''/'' (['''', ''var'', ''tmp'', u, ''testplan''] @ [''remote_workspaces'', n])
     = ''/var/tmp/'' @ u @ ''/testplan/remote_workspaces/'' @ n"
  by simp

lemma prepare_remote_Inr:
  assumes "prepare_remote cfg e s = Inr s'"
  shows "p_remote_testplan_path (worker s') =
           Some (''/var/tmp/'' @ getuser e @ ''/testplan/remote_workspaces/''
                 @ slugify e (cfg_plan_name cfg))"
    and "p_remote_testplan_runpath (worker s') =
           Some (''/var/tmp/'' @ getuser e @ ''/testplan/remote_workspaces/''
                 @ slugify e (cfg_plan_name cfg) @ ''/runpath/'' @ cfg_index cfg)"
    and "p_child_paths (worker s') =
           \<lparr>local = Some (child_path e),
            remote = Some (''/var/tmp/'' @ getuser e @ ''/testplan/remote_workspaces/''
                 @ slugify e (cfg_plan_name cfg) @ ''/child.py'')\<rparr>"
    and "p_workspace_paths (worker s') =
           \<lparr>local = Some (fix_home_prefix e (cfg_workspace cfg)),
            remote = Some (''/var/tmp/'' @ getuser e @ ''/testplan/remote_workspaces/''
                 @ slugify e (cfg_plan_name cfg) @ ''/''
                 @ last (str_split (os_sep e) (fix_home_prefix e (cfg_workspace cfg))))\<rparr>"
    and "is_subdir e (pwd e) (fix_home_prefix e (cfg_workspace cfg))"
    and "p_working_dirs (worker s') =
           \<lparr>local = Some (pwd e),
            remote = Some (to_posix_path e (path_join e
              (''/var/tmp/'' @ getuser e @ ''/testplan/remote_workspaces/''
                 @ slugify e (cfg_plan_name cfg) @ ''/''
                 @ last (str_split (os_sep e) (fix_home_prefix e (cfg_workspace cfg))))
              (relpath e (pwd e) (fix_home_prefix e (cfg_workspace cfg)))))\<rparr>"
    and "p_should_transfer_workspace (worker s') =
           (case cfg_copy_workspace_check cfg of
              None \<Rightarrow> p_should_transfer_workspace (worker s)
            | Some chk \<Rightarrow>
                returncode e (executed s)
                  (chk (cfg_ssh_cmd cfg) (cfg_index cfg) (fix_home_prefix e (cfg_workspace cfg)))
                \<noteq> 0)"
    and "workspace_pushed (setup_metadata (worker s')) =
           (if \<not> truthy (cfg_remote_workspace cfg) \<and> p_should_transfer_workspace (worker s')
            then True else workspace_pushed (setup_metadata (worker s)))"
    and "remote_push_dir (worker s') = remote_push_dir (worker s)"
    and "p_user (worker s') = p_user (worker s)"
    and "\<exists>after.
           executed s' = executed s
             @ (case cfg_copy_workspace_check cfg of
                  None \<Rightarrow> []
                | Some chk \<Rightarrow>
                    [chk (cfg_ssh_cmd cfg) (cfg_index cfg) (fix_home_prefix e (cfg_workspace cfg))])
             @ [cfg_ssh_cmd cfg (cfg_index cfg)
                  (str_join '' '' (cfg_remote_mkdir cfg @
                     [''/var/tmp/'' @ getuser e @ ''/testplan/remote_workspaces/''
                        @ slugify e (cfg_plan_name cfg)])),
                cfg_copy_cmd cfg (Some (child_path e))
                  (Some (remote_copy_path cfg (worker s)
                     (Some (''/var/tmp/'' @ getuser e @ ''/testplan/remote_workspaces/''
                        @ slugify e (cfg_plan_name cfg) @ ''/child.py''))))
                  NoArgs]
             @ (case environ e ''TESTPLAN_DEPENDENCIES_PATH'' of
                  None \<Rightarrow> []
                | Some path \<Rightarrow>
                    [cfg_copy_cmd cfg (Some (path @ ''/dependencies.py''))
                       (Some (remote_copy_path cfg (worker s)
                          (Some (''/var/tmp/'' @ getuser e @ ''/testplan/remote_workspaces/''
                             @ slugify e (cfg_plan_name cfg) @ ''/dependencies.py''))))
                       NoArgs])
             @ [if \<not> truthy (cfg_remote_workspace cfg) \<and> p_should_transfer_workspace (worker s')
                then cfg_copy_cmd cfg (Some (fix_home_prefix e (cfg_workspace cfg)))
                       (Some (remote_copy_path cfg (worker s)
                          (Some (''/var/tmp/'' @ getuser e @ ''/testplan/remote_workspaces/''
                             @ slugify e (cfg_plan_name cfg)))))
                       (Exclude (cfg_workspace_exclude cfg))
                else cfg_ssh_cmd cfg (cfg_index cfg)
                       (str_join '' ''
                          (cfg_link_cmd cfg
                             (case if_truthy (cfg_remote_workspace cfg) of
                                Some remote_workspace \<Rightarrow> fix_home_prefix e remote_workspace
                              | None \<Rightarrow> fix_home_prefix e (cfg_workspace cfg))
                             (''/var/tmp/'' @ getuser e @ ''/testplan/remote_workspaces/''
                                @ slugify e (cfg_plan_name cfg) @ ''/''
                                @ last (str_split (os_sep e)
                                     (fix_home_prefix e (cfg_workspace cfg))))))]
             @ after
         \<and> (\<not> truthy (cfg_push cfg) \<longrightarrow> after = [])"
proof -
  let ?ws = "fix_home_prefix e (cfg_workspace cfg)"
  let ?s0 = "s\<lparr>worker := (worker s)
                 \<lparr>p_child_paths := (p_child_paths (worker s))\<lparr>local := Some (child_path e)\<rparr>,
                  p_workspace_paths := (p_workspace_paths (worker s))\<lparr>local := Some ?ws\<rparr>\<rparr>\<rparr>"
  from assms obtain s1 s2 s3 s4 s5 wd s8 where
    c1: "check_workspace cfg e ?ws ?s0 = Inr s1"
    and c2: "create_remote_dirs cfg e (define_remote_dirs cfg e s1) = Inr s2"
    and c3: "copy_child_script cfg e s2 = Inr s3"
    and c4: "copy_dependencies_module cfg e s3 = Inr s4"
    and c5: "copy_workspace cfg e s4 = Inr s5"
    and c6: "remote_working_dir e
               ((worker s5)\<lparr>p_working_dirs := (p_working_dirs (worker s5))\<lparr>local := Some (pwd e)\<rparr>\<rparr>)
             = Inr wd"
    and c7: "p_push_files cfg e
               (s5\<lparr>worker := (worker s5)
                    \<lparr>p_working_dirs := (p_working_dirs (worker s5))
                       \<lparr>local := Some (pwd e), remote := Some wd\<rparr>\<rparr>\<rparr>) = Inr s8"
    and fin: "s' = s8\<lparr>worker := (worker s8)
                 \<lparr>setup_metadata := (setup_metadata (worker s8))
                    \<lparr>setup_script := cfg_setup_script cfg,
                     env := cfg_env cfg,
                     workspace_paths := Some (p_workspace_paths (worker s8))\<rparr>\<rparr>\<rparr>"
    unfolding prepare_remote_def Let_def bindE_Inr_iff by auto
  note w1 = check_workspace_Inr [OF c1]
  from create_remote_dirs_Inr [OF c2] have w2: "worker s2 = worker (define_remote_dirs cfg e s1)"
    by auto
  note w3 = copy_child_script_Inr [OF c3]
  note w4 = copy_dependencies_module_Inr [OF c4]
  from copy_workspace_Inr [OF c5] obtain wl where
    wl: "local (p_workspace_paths (worker s4)) = Some wl"
    and w5: "worker s5 = (worker s4)
       \<lparr>p_workspace_paths := (p_workspace_paths (worker s4))
          \<lparr>remote := Some (py_str (p_remote_testplan_path (worker s4)) @ ''/''
                            @ last (str_split (os_sep e) wl))\<rparr>,
        setup_metadata := (setup_metadata (worker s4))
          \<lparr>workspace_pushed :=
             (if \<not> truthy (cfg_remote_workspace cfg) \<and> p_should_transfer_workspace (worker s4)
              then True else workspace_pushed (setup_metadata (worker s4)))\<rparr>\<rparr>"
    by blast
  have w4': "worker s4 = (worker s1)
      \<lparr>p_remote_testplan_path := Some (''/var/tmp/'' @ getuser e @ ''/testplan/remote_workspaces/''
                 @ slugify e (cfg_plan_name cfg)),
       p_remote_testplan_runpath := Some (''/var/tmp/'' @ getuser e @ ''/testplan/remote_workspaces/''
                 @ slugify e (cfg_plan_name cfg) @ ''/runpath/'' @ cfg_index cfg),
       p_child_paths := (p_child_paths (worker s1))
         \<lparr>remote := Some (''/var/tmp/'' @ getuser e @ ''/testplan/remote_workspaces/''
                 @ slugify e (cfg_plan_name cfg) @ ''/child.py'')\<rparr>\<rparr>"
    unfolding w4 w3 w2 by (simp add: define_remote_dirs_def Let_def py_str_def)
  have wl_eq: "wl = ?ws" using wl unfolding w4' w1 by simp
  note fp = without_push_fields [OF p_push_files_without_push [OF c7]]
  show "p_remote_testplan_path (worker s') =
           Some (''/var/tmp/'' @ getuser e @ ''/testplan/remote_workspaces/''
                 @ slugify e (cfg_plan_name cfg))"
    unfolding fin using fp(1) by (simp add: w5 w4')
  show "p_remote_testplan_runpath (worker s') =
           Some (''/var/tmp/'' @ getuser e @ ''/testplan/remote_workspaces/''
                 @ slugify e (cfg_plan_name cfg) @ ''/runpath/'' @ cfg_index cfg)"
    unfolding fin using fp(2) by (simp add: w5 w4')
  show "p_child_paths (worker s') =
           \<lparr>local = Some (child_path e),
            remote = Some (''/var/tmp/'' @ getuser e @ ''/testplan/remote_workspaces/''
                 @ slugify e (cfg_plan_name cfg) @ ''/child.py'')\<rparr>"
    unfolding fin using fp(5) by (simp add: w5 w4' w1)
  have wsp: "p_workspace_paths (worker s5) =
           \<lparr>local = Some ?ws,
            remote = Some (''/var/tmp/'' @ getuser e @ ''/testplan/remote_workspaces/''
                 @ slugify e (cfg_plan_name cfg) @ ''/''
                 @ last (str_split (os_sep e) ?ws))\<rparr>"
    by (simp add: w5 w4' w1 wl_eq py_str_def)
  show "p_workspace_paths (worker s') =
           \<lparr>local = Some (fix_home_prefix e (cfg_workspace cfg)),
            remote = Some (''/var/tmp/'' @ getuser e @ ''/testplan/remote_workspaces/''
                 @ slugify e (cfg_plan_name cfg) @ ''/''
                 @ last (str_split (os_sep e) (fix_home_prefix e (cfg_workspace cfg))))\<rparr>"
    unfolding fin using fp(4) by (simp add: wsp)
  from c6 have sub: "is_subdir e (pwd e) ?ws"
    and wd: "wd = to_posix_path e (path_join e
              (''/var/tmp/'' @ getuser e @ ''/testplan/remote_workspaces/''
                 @ slugify e (cfg_plan_name cfg) @ ''/'' @ last (str_split (os_sep e) ?ws))
              (relpath e (pwd e) ?ws))"
    by (auto simp: remote_working_dir_def wsp split: if_splits)
  show "is_subdir e (pwd e) (fix_home_prefix e (cfg_workspace cfg))" by (rule sub)
  show "p_working_dirs (worker s') =
           \<lparr>local = Some (pwd e),
            remote = Some (to_posix_path e (path_join e
              (''/var/tmp/'' @ getuser e @ ''/testplan/remote_workspaces/''
                 @ slugify e (cfg_plan_name cfg) @ ''/''
                 @ last (str_split (os_sep e) (fix_home_prefix e (cfg_workspace cfg))))
              (relpath e (pwd e) (fix_home_prefix e (cfg_workspace cfg)))))\<rparr>"
    unfolding fin using fp(6) by (simp add: wd)
  have st: "p_should_transfer_workspace (worker s5) =
           (case cfg_copy_workspace_check cfg of
              None \<Rightarrow> p_should_transfer_workspace (worker s)
            | Some chk \<Rightarrow>
                returncode e (executed s) (chk (cfg_ssh_cmd cfg) (cfg_index cfg) ?ws) \<noteq> 0)"
    by (simp add: w5 w4' w1 split: option.split)
  have st': "p_should_transfer_workspace (worker s') = p_should_transfer_workspace (worker s5)"
    unfolding fin using fp(7) by simp
  show "p_should_transfer_workspace (worker s') =
           (case cfg_copy_workspace_check cfg of
              None \<Rightarrow> p_should_transfer_workspace (worker s)
            | Some chk \<Rightarrow>
                returncode e (executed s)
                  (chk (cfg_ssh_cmd cfg) (cfg_index cfg) (fix_home_prefix e (cfg_workspace cfg)))
                \<noteq> 0)"
    unfolding st' st ..
  have "workspace_pushed (setup_metadata (worker s')) = workspace_pushed (setup_metadata (worker s5))"
    unfolding fin using fp(9) by simp
  also have "\<dots> = (if \<not> truthy (cfg_remote_workspace cfg) \<and> p_should_transfer_workspace (worker s5)
            then True else workspace_pushed (setup_metadata (worker s)))"
    by (simp add: w5 w4' w1)
  finally show "workspace_pushed (setup_metadata (worker s')) =
           (if \<not> truthy (cfg_remote_workspace cfg) \<and> p_should_transfer_workspace (worker s')
            then True else workspace_pushed (setup_metadata (worker s)))"
    unfolding st' .
  show "remote_push_dir (worker s') = remote_push_dir (worker s)"
    unfolding fin using fp(8) by (simp add: w5 w4' w1)
  show "p_user (worker s') = p_user (worker s)"
    unfolding fin using fp(3) by (simp add: w5 w4' w1)
  have u1: "remote_copy_path cfg (worker s1) = remote_copy_path cfg (worker s)"
    by (simp add: w1 remote_copy_path_def fun_eq_iff)
  have w2': "worker s2 = (worker s1)
      \<lparr>p_remote_testplan_path := Some (''/var/tmp/'' @ getuser e @ ''/testplan/remote_workspaces/''
                 @ slugify e (cfg_plan_name cfg)),
       p_remote_testplan_runpath := Some (''/var/tmp/'' @ getuser e @ ''/testplan/remote_workspaces/''
                 @ slugify e (cfg_plan_name cfg) @ ''/runpath/'' @ cfg_index cfg)\<rparr>"
    unfolding w2 by (simp add: define_remote_dirs_def Let_def)
  have e1: "executed s1 = executed s @
       (case cfg_copy_workspace_check cfg of
          None \<Rightarrow> []
        | Some chk \<Rightarrow> [chk (cfg_ssh_cmd cfg) (cfg_index cfg) ?ws])"
    using check_workspace_executed [OF c1] by simp
  have e2: "executed s2 = executed s1 @
       [cfg_ssh_cmd cfg (cfg_index cfg)
          (str_join '' '' (cfg_remote_mkdir cfg @
             [''/var/tmp/'' @ getuser e @ ''/testplan/remote_workspaces/''
                @ slugify e (cfg_plan_name cfg)]))]"
    using create_remote_dirs_executed [OF c2]
    by (simp add: define_remote_dirs_def Let_def py_str_def)
  have e3: "executed s3 = executed s2 @
       [cfg_copy_cmd cfg (Some (child_path e))
          (Some (remote_copy_path cfg (worker s)
             (Some (''/var/tmp/'' @ getuser e @ ''/testplan/remote_workspaces/''
                @ slugify e (cfg_plan_name cfg) @ ''/child.py''))))
          NoArgs]"
    using copy_child_script_executed [OF c3]
    by (simp add: w2' w1 py_str_def remote_copy_path_def)
  have e4: "executed s4 = executed s3 @
       (case environ e ''TESTPLAN_DEPENDENCIES_PATH'' of
          None \<Rightarrow> []
        | Some path \<Rightarrow>
            [cfg_copy_cmd cfg (Some (path @ ''/dependencies.py''))
               (Some (remote_copy_path cfg (worker s)
                  (Some (''/var/tmp/'' @ getuser e @ ''/testplan/remote_workspaces/''
                     @ slugify e (cfg_plan_name cfg) @ ''/dependencies.py''))))
               NoArgs])"
    using copy_dependencies_module_executed [OF c4]
    by (simp add: w3 w2' w1 py_str_def remote_copy_path_def split: option.splits)
  from copy_workspace_trace [OF c5] wl
  have e5: "executed s5 = executed s4 @
       [if \<not> truthy (cfg_remote_workspace cfg) \<and> p_should_transfer_workspace (worker s4)
        then cfg_copy_cmd cfg (Some ?ws)
               (Some (remote_copy_path cfg (worker s)
                  (Some (''/var/tmp/'' @ getuser e @ ''/testplan/remote_workspaces/''
                     @ slugify e (cfg_plan_name cfg)))))
               (Exclude (cfg_workspace_exclude cfg))
        else cfg_ssh_cmd cfg (cfg_index cfg)
               (str_join '' ''
                  (cfg_link_cmd cfg
                     (case if_truthy (cfg_remote_workspace cfg) of
                        Some remote_workspace \<Rightarrow> fix_home_prefix e remote_workspace
                      | None \<Rightarrow> ?ws)
                     (''/var/tmp/'' @ getuser e @ ''/testplan/remote_workspaces/''
                        @ slugify e (cfg_plan_name cfg) @ ''/''
                        @ last (str_split (os_sep e) ?ws))))]"
    by (simp add: wl_eq w4' w1 py_str_def remote_copy_path_def)
  have st4: "p_should_transfer_workspace (worker s4) = p_should_transfer_workspace (worker s')"
    unfolding st' by (simp add: w5)
  from p_push_files_executed [OF c7] obtain after where
    e8: "executed s8 = executed s5 @ after" and empty: "\<not> truthy (cfg_push cfg) \<longrightarrow> after = []"
    by auto
  have e': "executed s' = executed s8" unfolding fin by simp
  show "\<exists>after.
           executed s' = executed s
             @ (case cfg_copy_workspace_check cfg of
                  None \<Rightarrow> []
                | Some chk \<Rightarrow>
                    [chk (cfg_ssh_cmd cfg) (cfg_index cfg) (fix_home_prefix e (cfg_workspace cfg))])
             @ [cfg_ssh_cmd cfg (cfg_index cfg)
                  (str_join '' '' (cfg_remote_mkdir cfg @
                     [''/var/tmp/'' @ getuser e @ ''/testplan/remote_workspaces/''
                        @ slugify e (cfg_plan_name cfg)])),
                cfg_copy_cmd cfg (Some (child_path e))
                  (Some (remote_copy_path cfg (worker s)
                     (Some (''/var/tmp/'' @ getuser e @ ''/testplan/remote_workspaces/''
                        @ slugify e (cfg_plan_name cfg) @ ''/child.py''))))
                  NoArgs]
             @ (case environ e ''TESTPLAN_DEPENDENCIES_PATH'' of
                  None \<Rightarrow> []
                | Some path \<Rightarrow>
                    [cfg_copy_cmd cfg (Some (path @ ''/dependencies.py''))
                       (Some (remote_copy_path cfg (worker s)
                          (Some (''/var/tmp/'' @ getuser e @ ''/testplan/remote_workspaces/''
                             @ slugify e (cfg_plan_name cfg) @ ''/dependencies.py''))))
                       NoArgs])
             @ [if \<not> truthy (cfg_remote_workspace cfg) \<and> p_should_transfer_workspace (worker s')
                then cfg_copy_cmd cfg (Some (fix_home_prefix e (cfg_workspace cfg)))
                       (Some (remote_copy_path cfg (worker s)
                          (Some (''/var/tmp/'' @ getuser e @ ''/testplan/remote_workspaces/''
                             @ slugify e (cfg_plan_name cfg)))))
                       (Exclude (cfg_workspace_exclude cfg))
                else cfg_ssh_cmd cfg (cfg_index cfg)
                       (str_join '' ''
                          (cfg_link_cmd cfg
                             (case if_truthy (cfg_remote_workspace cfg) of
                                Some remote_workspace \<Rightarrow> fix_home_prefix e remote_workspace
                              | None \<Rightarrow> fix_home_prefix e (cfg_workspace cfg))
                             (''/var/tmp/'' @ getuser e @ ''/testplan/remote_workspaces/''
                                @ slugify e (cfg_plan_name cfg) @ ''/''
                                @ last (str_split (os_sep e)
                                     (fix_home_prefix e (cfg_workspace cfg))))))]
             @ after
         \<and> (\<not> truthy (cfg_push cfg) \<longrightarrow> after = [])"
    unfolding e' e8 e5 e4 e3 e2 e1 st4 using empty by auto
qed

section \<open>Evaluating the examples\<close>

lemmas example_defs =
  example_cfg_def posix_env_def backslash_env_def state_init_def RemoteWorker_init_def
  WorkerSetupMetadata_init_def LocationPaths_init_def same_path_def
  is_subdir_spec_def to_posix_path_spec_def

lemmas step_defs =
  prepare_remote_def check_workspace_def define_remote_dirs_def create_remote_dirs_def
  copy_child_script_def copy_dependencies_module_def copy_workspace_def remote_working_dir_def
  p_push_files_def transfer_data_def execute_cmd_def remote_copy_path_def mkdir_remote_def
  build_push_lists_def push_locations_def build_push_dests_def to_relative_push_dest_def
  dedup_push_dirs_def dedup_step_def str_rstrip_def rpartition_head_def
  py_str_def if_truthy_def truthy_def Let_def

section \<open>Workspace staging\<close>

text \<open>
  C1.  After \<^verbatim>\<open>_prepare_remote\<close> of a worker that starts as \<^verbatim>\<open>__init__\<close> leaves it
  (nothing pushed, workspace to be transferred), \<^verbatim>\<open>setup_metadata.workspace_pushed\<close> is
  true exactly when this worker transferred the local workspace.  The commands run are,
  in order: the workspace check if one is configured, the creation of the remote
  directory, the copy of the child script, the copy of the dependencies module if the
  variable is set, then the one command that stages the workspace, then the commands of
  the push stage (none for an empty push list).  The staging command is the copy of the
  local workspace into the remote testplan path when the flag is true, and a link command
  when it is false.  The flag is false when \<^verbatim>\<open>cfg.remote_workspace\<close> is set (a
  non-empty string, as the test \<^verbatim>\<open>if self.cfg.remote_workspace\<close> reads it), false
  when the configured \<^verbatim>\<open>copy_workspace_check\<close> command exits with 0, and true when
  neither holds.
\<close>

theorem workspace_pushed_iff_transferred:
  assumes "prepare_remote cfg e s = Inr s'"
    and "\<not> workspace_pushed (setup_metadata (worker s))"
    and "p_should_transfer_workspace (worker s)"
  shows "\<exists>rtp ws staged after.
           rtp = ''/var/tmp/'' @ getuser e @ ''/testplan/remote_workspaces/''
                   @ slugify e (cfg_plan_name cfg)
         \<and> ws = fix_home_prefix e (cfg_workspace cfg)
         \<and> executed s' = executed s
             @ (case cfg_copy_workspace_check cfg of
                  None \<Rightarrow> []
                | Some chk \<Rightarrow> [chk (cfg_ssh_cmd cfg) (cfg_index cfg) ws])
             @ [cfg_ssh_cmd cfg (cfg_index cfg) (str_join '' '' (cfg_remote_mkdir cfg @ [rtp])),
                cfg_copy_cmd cfg (Some (child_path e))
                  (Some (remote_copy_path cfg (worker s) (Some (rtp @ ''/child.py'')))) NoArgs]
             @ (case environ e ''TESTPLAN_DEPENDENCIES_PATH'' of
                  None \<Rightarrow> []
                | Some path \<Rightarrow>
                    [cfg_copy_cmd cfg (Some (path @ ''/dependencies.py''))
                       (Some (remote_copy_path cfg (worker s) (Some (rtp @ ''/dependencies.py''))))
                       NoArgs])
             @ [staged] @ after
         \<and> (\<not> truthy (cfg_push cfg) \<longrightarrow> after = [])
         \<and> staged =
             (if workspace_pushed (setup_metadata (worker s'))
              then cfg_copy_cmd cfg (Some ws) (Some (remote_copy_path cfg (worker s) (Some rtp)))
                     (Exclude (cfg_workspace_exclude cfg))
              else cfg_ssh_cmd cfg (cfg_index cfg)
                     (str_join '' ''
                        (cfg_link_cmd cfg
                           (case if_truthy (cfg_remote_workspace cfg) of
                              Some remote_workspace \<Rightarrow> fix_home_prefix e remote_workspace
                            | None \<Rightarrow> ws)
                           (rtp @ ''/'' @ last (str_split (os_sep e) ws)))))
         \<and> (workspace_pushed (setup_metadata (worker s')) \<longleftrightarrow>
              \<not> truthy (cfg_remote_workspace cfg) \<and>
              (case cfg_copy_workspace_check cfg of
                 None \<Rightarrow> True
               | Some chk \<Rightarrow> returncode e (executed s) (chk (cfg_ssh_cmd cfg) (cfg_index cfg) ws) \<noteq> 0))"
proof -
  note facts = prepare_remote_Inr [OF assms(1)]
  have flag: "workspace_pushed (setup_metadata (worker s')) \<longleftrightarrow>
                \<not> truthy (cfg_remote_workspace cfg) \<and> p_should_transfer_workspace (worker s')"
    using facts(8) assms(2) by simp
  have table: "workspace_pushed (setup_metadata (worker s')) \<longleftrightarrow>
              \<not> truthy (cfg_remote_workspace cfg) \<and>
              (case cfg_copy_workspace_check cfg of
                 None \<Rightarrow> True
               | Some chk \<Rightarrow>
                   returncode e (executed s)
                     (chk (cfg_ssh_cmd cfg) (cfg_index cfg) (fix_home_prefix e (cfg_workspace cfg)))
                   \<noteq> 0)"
    using facts(7,8) assms(2,3) by (simp split: option.splits)
  from facts(11) obtain after where
    trace: "executed s' = executed s
             @ (case cfg_copy_workspace_check cfg of
                  None \<Rightarrow> []
                | Some chk \<Rightarrow>
                    [chk (cfg_ssh_cmd cfg) (cfg_index cfg) (fix_home_prefix e (cfg_workspace cfg))])
             @ [cfg_ssh_cmd cfg (cfg_index cfg)
                  (str_join '' '' (cfg_remote_mkdir cfg @
                     [''/var/tmp/'' @ getuser e @ ''/testplan/remote_workspaces/''
                        @ slugify e (cfg_plan_name cfg)])),
                cfg_copy_cmd cfg (Some (child_path e))
                  (Some (remote_copy_path cfg (worker s)
                     (Some (''/var/tmp/'' @ getuser e @ ''/testplan/remote_workspaces/''
                        @ slugify e (cfg_plan_name cfg) @ ''/child.py''))))
                  NoArgs]
             @ (case environ e ''TESTPLAN_DEPENDENCIES_PATH'' of
                  None \<Rightarrow> []
                | Some path \<Rightarrow>
                    [cfg_copy_cmd cfg (Some (path @ ''/dependencies.py''))
                       (Some (remote_copy_path cfg (worker s)
                          (Some (''/var/tmp/'' @ getuser e @ ''/testplan/remote_workspaces/''
                             @ slugify e (cfg_plan_name cfg) @ ''/dependencies.py''))))
                       NoArgs])
             @ [if workspace_pushed (setup_metadata (worker s'))
                then cfg_copy_cmd cfg (Some (fix_home_prefix e (cfg_workspace cfg)))
                       (Some (remote_copy_path cfg (worker s)
                          (Some (''/var/tmp/'' @ getuser e @ ''/testplan/remote_workspaces/''
                             @ slugify e (cfg_plan_name cfg)))))
                       (Exclude (cfg_workspace_exclude cfg))
                else cfg_ssh_cmd cfg (cfg_index cfg)
                       (str_join '' ''
                          (cfg_link_cmd cfg
                             (case if_truthy (cfg_remote_workspace cfg) of
                                Some remote_workspace \<Rightarrow> fix_home_prefix e remote_workspace
                              | None \<Rightarrow> fix_home_prefix e (cfg_workspace cfg))
                             (''/var/tmp/'' @ getuser e @ ''/testplan/remote_workspaces/''
                                @ slugify e (cfg_plan_name cfg) @ ''/''
                                @ last (str_split (os_sep e)
                                     (fix_home_prefix e (cfg_workspace cfg))))))]
             @ after"
    and empty: "\<not> truthy (cfg_push cfg) \<longrightarrow> after = []"
    unfolding flag by blast
  show ?thesis
    apply (rule exI [of _ "''/var/tmp/'' @ getuser e @ ''/testplan/remote_workspaces/''
                   @ slugify e (cfg_plan_name cfg)"])
    apply (rule exI [of _ "fix_home_prefix e (cfg_workspace cfg)"])
    apply (rule exI [of _ "if workspace_pushed (setup_metadata (worker s'))
                then cfg_copy_cmd cfg (Some (fix_home_prefix e (cfg_workspace cfg)))
                       (Some (remote_copy_path cfg (worker s)
                          (Some (''/var/tmp/'' @ getuser e @ ''/testplan/remote_workspaces/''
                             @ slugify e (cfg_plan_name cfg)))))
                       (Exclude (cfg_workspace_exclude cfg))
                else cfg_ssh_cmd cfg (cfg_index cfg)
                       (str_join '' ''
                          (cfg_link_cmd cfg
                             (case if_truthy (cfg_remote_workspace cfg) of
                                Some remote_workspace \<Rightarrow> fix_home_prefix e remote_workspace
                              | None \<Rightarrow> fix_home_prefix e (cfg_workspace cfg))
                             (''/var/tmp/'' @ getuser e @ ''/testplan/remote_workspaces/''
                                @ slugify e (cfg_plan_name cfg) @ ''/''
                                @ last (str_split (os_sep e)
                                     (fix_home_prefix e (cfg_workspace cfg))))))"])
    apply (rule exI [of _ after])
    apply (intro conjI)
    subgoal by (rule refl)
    subgoal by (rule refl)
    subgoal using trace by (simp only: append_assoc)
    subgoal using empty .
    subgoal by (simp only: append_assoc)
    subgoal using table .
    done
qed

theorem workspace_pushed_iff_transferred_witness:
  "(\<exists>s'. prepare_remote example_cfg posix_env (state_init posix_env) = Inr s'
        \<and> workspace_pushed (setup_metadata (worker s'))
        \<and> executed s' =
            [[''ssh'', ''h1'', ''/bin/mkdir -p /var/tmp/u/testplan/remote_workspaces/plan''],
             [''rsync'', ''/opt/testplan/child.py'',
              ''u@h1:/var/tmp/u/testplan/remote_workspaces/plan/child.py''],
             [''rsync'', ''/home/u/ws'', ''u@h1:/var/tmp/u/testplan/remote_workspaces/plan'']])
   \<and> (\<exists>s'. prepare_remote checked_cfg posix_env (state_init posix_env) = Inr s'
        \<and> \<not> workspace_pushed (setup_metadata (worker s'))
        \<and> executed s' =
            [[''ssh'', ''h1'', ''test -e /home/u/ws''],
             [''ssh'', ''h1'', ''/bin/mkdir -p /var/tmp/u/testplan/remote_workspaces/plan''],
             [''rsync'', ''/opt/testplan/child.py'',
              ''u@h1:/var/tmp/u/testplan/remote_workspaces/plan/child.py''],
             [''ssh'', ''h1'',
              ''ln -sfn /home/u/ws /var/tmp/u/testplan/remote_workspaces/plan/ws'']])"
proof -
  have fresh: "\<not> workspace_pushed (setup_metadata (worker (state_init posix_env)))"
    "p_should_transfer_workspace (worker (state_init posix_env))"
    by (simp_all add: example_defs)
  obtain s1 where prep1: "prepare_remote example_cfg posix_env (state_init posix_env) = Inr s1"
    by (simp add: example_defs step_defs)
  from workspace_pushed_iff_transferred [OF prep1 fresh]
  have "workspace_pushed (setup_metadata (worker s1))
        \<and> executed s1 =
            [[''ssh'', ''h1'', ''/bin/mkdir -p /var/tmp/u/testplan/remote_workspaces/plan''],
             [''rsync'', ''/opt/testplan/child.py'',
              ''u@h1:/var/tmp/u/testplan/remote_workspaces/plan/child.py''],
             [''rsync'', ''/home/u/ws'', ''u@h1:/var/tmp/u/testplan/remote_workspaces/plan'']]"
    by (auto simp: example_defs remote_copy_path_def py_str_def truthy_def if_truthy_def)
  with prep1 have first: "\<exists>s'. prepare_remote example_cfg posix_env (state_init posix_env) = Inr s'
        \<and> workspace_pushed (setup_metadata (worker s'))
        \<and> executed s' =
            [[''ssh'', ''h1'', ''/bin/mkdir -p /var/tmp/u/testplan/remote_workspaces/plan''],
             [''rsync'', ''/opt/testplan/child.py'',
              ''u@h1:/var/tmp/u/testplan/remote_workspaces/plan/child.py''],
             [''rsync'', ''/home/u/ws'', ''u@h1:/var/tmp/u/testplan/remote_workspaces/plan'']]"
    by blast
  obtain s2 where prep2: "prepare_remote checked_cfg posix_env (state_init posix_env) = Inr s2"
    by (simp add: checked_cfg_def example_defs step_defs)
  from workspace_pushed_iff_transferred [OF prep2 fresh]
  have "\<not> workspace_pushed (setup_metadata (worker s2))
        \<and> executed s2 =
            [[''ssh'', ''h1'', ''test -e /home/u/ws''],
             [''ssh'', ''h1'', ''/bin/mkdir -p /var/tmp/u/testplan/remote_workspaces/plan''],
             [''rsync'', ''/opt/testplan/child.py'',
              ''u@h1:/var/tmp/u/testplan/remote_workspaces/plan/child.py''],
             [''ssh'', ''h1'',
              ''ln -sfn /home/u/ws /var/tmp/u/testplan/remote_workspaces/plan/ws'']]"
    by (auto simp: checked_cfg_def example_defs remote_copy_path_def py_str_def truthy_def
          if_truthy_def)
  with prep2 have "\<exists>s'. prepare_remote checked_cfg posix_env (state_init posix_env) = Inr s'
        \<and> \<not> workspace_pushed (setup_metadata (worker s'))
        \<and> executed s' =
            [[''ssh'', ''h1'', ''test -e /home/u/ws''],
             [''ssh'', ''h1'', ''/bin/mkdir -p /var/tmp/u/testplan/remote_workspaces/plan''],
             [''rsync'', ''/opt/testplan/child.py'',
              ''u@h1:/var/tmp/u/testplan/remote_workspaces/plan/child.py''],
             [''ssh'', ''h1'',
              ''ln -sfn /home/u/ws /var/tmp/u/testplan/remote_workspaces/plan/ws'']]"
    by blast
  with first show ?thesis by blast
qed

section \<open>Remote path layout\<close>

lemma str_split_nonempty: "str_split c x \<noteq> []"
  by (induction x) (auto split: list.splits)

lemma str_split_no_sep: "p \<in> set (str_split c x) \<Longrightarrow> c \<notin> set p"
proof (induction x arbitrary: p)
  case Nil
  then show ?case by simp
next
  case (Cons a x)
  then show ?case
    by (cases "str_split c x") (auto split: if_splits)
qed

lemma str_join_split: "str_join [c] (str_split c x) = x"
proof (induction x)
  case Nil
  then show ?case by simp
next
  case (Cons a x)
  obtain p ps where ps: "str_split c x = p # ps"
    using str_split_nonempty [of c x] by (cases "str_split c x") auto
  with Cons show ?case by (cases ps) auto
qed

lemma str_join_last:
  "ps \<noteq> [] \<Longrightarrow> \<exists>pre. str_join sep ps = pre @ last ps \<and> (pre = [] \<or> (\<exists>q. pre = q @ sep))"
proof (induction sep ps rule: str_join.induct)
  case (1 sep)
  then show ?case by simp
next
  case (2 sep x)
  then show ?case by simp
next
  case (3 sep x y ys)
  then obtain pre where pre: "str_join sep (y # ys) = pre @ last (y # ys)"
    and shape: "pre = [] \<or> (\<exists>q. pre = q @ sep)"
    by auto
  have eq: "str_join sep (x # y # ys) = (x @ sep @ pre) @ last (x # y # ys)"
    using pre by simp
  from shape have "\<exists>q. x @ sep @ pre = q @ sep"
  proof
    assume "pre = []"
    then have "x @ sep @ pre = x @ sep" by simp
    then show ?thesis by blast
  next
    assume "\<exists>q. pre = q @ sep"
    then obtain q where "pre = q @ sep" ..
    then have "x @ sep @ pre = (x @ sep @ q) @ sep" by simp
    then show ?thesis by blast
  qed
  with eq show ?case by blast
qed

text \<open>
  The last component of a split path is what follows the last separator: the base name.
\<close>

lemma last_str_split:
  "c \<notin> set (last (str_split c x)) \<and>
   (\<exists>pre. x = pre @ last (str_split c x) \<and> (pre = [] \<or> last pre = c))"
proof -
  have "last (str_split c x) \<in> set (str_split c x)"
    using str_split_nonempty by simp
  then have "c \<notin> set (last (str_split c x))" by (rule str_split_no_sep)
  moreover from str_join_last [OF str_split_nonempty, of "[c]" c x]
  have "\<exists>pre. x = pre @ last (str_split c x) \<and> (pre = [] \<or> last pre = c)"
    unfolding str_join_split by auto
  ultimately show ?thesis by blast
qed

text \<open>
  C7.  After \<^verbatim>\<open>_prepare_remote\<close> the remote testplan path is
  \<open>/var/tmp/<user>/testplan/remote_workspaces/<slug(plan name)>\<close>, the remote child path
  is that path followed by \<open>/child.py\<close>, and the remote workspace path is that path
  followed by \<open>/\<close> and the base name of the local workspace path, which is the part of
  the local workspace path after its last separator.
\<close>

theorem remote_path_layout:
  assumes "prepare_remote cfg e s = Inr s'"
  shows "\<exists>rtp base.
           rtp = ''/var/tmp/'' @ getuser e @ ''/testplan/remote_workspaces/''
                   @ slugify e (cfg_plan_name cfg)
         \<and> base = last (str_split (os_sep e) (fix_home_prefix e (cfg_workspace cfg)))
         \<and> p_remote_testplan_path (worker s') = Some rtp
         \<and> remote (p_child_paths (worker s')) = Some (rtp @ ''/child.py'')
         \<and> local (p_workspace_paths (worker s')) = Some (fix_home_prefix e (cfg_workspace cfg))
         \<and> remote (p_workspace_paths (worker s')) = Some (rtp @ ''/'' @ base)
         \<and> os_sep e \<notin> set base
         \<and> (\<exists>pre. fix_home_prefix e (cfg_workspace cfg) = pre @ base
                \<and> (pre = [] \<or> last pre = os_sep e))"
proof -
  let ?ws = "fix_home_prefix e (cfg_workspace cfg)"
  note base = last_str_split [of "os_sep e" ?ws]
  note facts = prepare_remote_Inr(1,3,4) [OF assms]
  have "remote (p_child_paths (worker s')) =
          Some ((''/var/tmp/'' @ getuser e @ ''/testplan/remote_workspaces/''
                @ slugify e (cfg_plan_name cfg)) @ ''/child.py'')"
    unfolding facts(2) by simp
  moreover have "local (p_workspace_paths (worker s')) = Some ?ws"
    unfolding facts(3) by simp
  moreover have "remote (p_workspace_paths (worker s')) =
          Some ((''/var/tmp/'' @ getuser e @ ''/testplan/remote_workspaces/''
                @ slugify e (cfg_plan_name cfg)) @ ''/'' @ last (str_split (os_sep e) ?ws))"
    unfolding facts(3) by simp
  ultimately show ?thesis using base facts(1) by blast
qed

theorem remote_path_layout_witness:
  "\<exists>s'. prepare_remote example_cfg posix_env (state_init posix_env) = Inr s'
        \<and> p_remote_testplan_path (worker s') = Some ''/var/tmp/u/testplan/remote_workspaces/plan''
        \<and> remote (p_child_paths (worker s'))
            = Some ''/var/tmp/u/testplan/remote_workspaces/plan/child.py''
        \<and> remote (p_workspace_paths (worker s'))
            = Some ''/var/tmp/u/testplan/remote_workspaces/plan/ws''"
proof -
  obtain s' where prep: "prepare_remote example_cfg posix_env (state_init posix_env) = Inr s'"
    by (simp add: example_defs step_defs)
  from remote_path_layout [OF prep] obtain rtp base where
    rtp: "rtp = ''/var/tmp/'' @ getuser posix_env @ ''/testplan/remote_workspaces/''
                   @ slugify posix_env (cfg_plan_name example_cfg)"
    and base: "base = last (str_split (os_sep posix_env)
                 (fix_home_prefix posix_env (cfg_workspace example_cfg)))"
    and a: "p_remote_testplan_path (worker s') = Some rtp"
    and b: "remote (p_child_paths (worker s')) = Some (rtp @ ''/child.py'')"
    and f: "remote (p_workspace_paths (worker s')) = Some (rtp @ ''/'' @ base)"
    by blast
  have rtp': "rtp = ''/var/tmp/u/testplan/remote_workspaces/plan''"
    unfolding rtp by (simp add: example_defs)
  have base': "base = ''ws''"
    unfolding base by (simp add: example_defs)
  from a b f prep show ?thesis unfolding rtp' base' by simp
qed

section \<open>The remote working directory\<close>




text \<open>
  The POSIX form is the path split at the local separator and joined by slashes, and no
  separator of a host that does not use the slash is left in it.
\<close>

lemma to_posix_path_spec_split:
  "to_posix_path_spec sep p = str_join ''/'' (str_split sep p)"
proof (induction p)
  case Nil
  then show ?case by (simp add: to_posix_path_spec_def)
next
  case (Cons a p)
  obtain q qs where qs: "str_split sep p = q # qs"
    using str_split_nonempty [of sep p] by (cases "str_split sep p") auto
  with Cons show ?case
    by (cases qs) (auto simp: to_posix_path_spec_def)
qed

lemma to_posix_path_spec_no_sep:
  "sep \<noteq> CHR ''/'' \<Longrightarrow> sep \<notin> set (to_posix_path_spec sep p)"
  by (auto simp: to_posix_path_spec_def)



section \<open>Repeated metadata pulls\<close>

lemma worker_setup_metadata_worker [simp]: "worker (worker_setup_metadata s) = worker s"
  by (simp add: worker_setup_metadata_def respond_def)

lemma worker_setup_metadata_responses [simp]:
  "responses (worker_setup_metadata s)
     = responses s @ [\<lparr>cmd = Metadata, data = Some (setup_metadata (worker s))\<rparr>]"
  by (simp add: worker_setup_metadata_def respond_def make_def)

text \<open>
  C9.  However many \<^verbatim>\<open>MetadataPull\<close> messages the pool handles for a worker, each
  response is a \<^verbatim>\<open>Metadata\<close> message that carries the same setup metadata, the one
  the worker holds, and the handler leaves the worker as it is.
\<close>

theorem metadata_pull_idempotent:
  "worker ((worker_setup_metadata ^^ n) s) = worker s
   \<and> responses ((worker_setup_metadata ^^ n) s)
       = responses s @ replicate n \<lparr>cmd = Metadata, data = Some (setup_metadata (worker s))\<rparr>"
proof (induction n)
  case 0
  then show ?case by simp
next
  case (Suc n)
  then show ?case by (simp add: replicate_append_same)
qed

section \<open>An empty push list\<close>

lemma p_push_files_nothing:
  assumes "\<not> truthy (cfg_push cfg)"
  shows "p_push_files cfg e s =
           Inr (s\<lparr>logged := logged s @
                  (if truthy (cfg_push_exclude cfg) \<or> truthy (cfg_push_relative_dir cfg)
                   then [LogWarning (''Not been given any files to push - ''
                                     @ ''ignoring push configuration options.'')]
                   else [])\<rparr>)"
  using assms by (simp add: p_push_files_def)

lemma prepare_remote_nothing_pushed:
  assumes prep: "prepare_remote cfg e s = Inr s'" and no_push: "\<not> truthy (cfg_push cfg)"
  shows "push_files (setup_metadata (worker s')) = push_files (setup_metadata (worker s))"
    and "push_dirs (setup_metadata (worker s')) = push_dirs (setup_metadata (worker s))"
proof -
  let ?ws = "fix_home_prefix e (cfg_workspace cfg)"
  let ?s0 = "s\<lparr>worker := (worker s)
                 \<lparr>p_child_paths := (p_child_paths (worker s))\<lparr>local := Some (child_path e)\<rparr>,
                  p_workspace_paths := (p_workspace_paths (worker s))\<lparr>local := Some ?ws\<rparr>\<rparr>\<rparr>"
  from prep obtain s1 s2 s3 s4 s5 wd s8 where
    c1: "check_workspace cfg e ?ws ?s0 = Inr s1"
    and c2: "create_remote_dirs cfg e (define_remote_dirs cfg e s1) = Inr s2"
    and c3: "copy_child_script cfg e s2 = Inr s3"
    and c4: "copy_dependencies_module cfg e s3 = Inr s4"
    and c5: "copy_workspace cfg e s4 = Inr s5"
    and c7: "p_push_files cfg e
               (s5\<lparr>worker := (worker s5)
                    \<lparr>p_working_dirs := (p_working_dirs (worker s5))
                       \<lparr>local := Some (pwd e), remote := Some wd\<rparr>\<rparr>\<rparr>) = Inr s8"
    and fin: "s' = s8\<lparr>worker := (worker s8)
                 \<lparr>setup_metadata := (setup_metadata (worker s8))
                    \<lparr>setup_script := cfg_setup_script cfg,
                     env := cfg_env cfg,
                     workspace_paths := Some (p_workspace_paths (worker s8))\<rparr>\<rparr>\<rparr>"
    unfolding prepare_remote_def Let_def bindE_Inr_iff by auto
  have m1: "setup_metadata (worker s1) = setup_metadata (worker s)"
    using check_workspace_Inr [OF c1] by simp
  from create_remote_dirs_Inr [OF c2]
  have m2: "setup_metadata (worker s2) = setup_metadata (worker s1)"
    by (auto simp: define_remote_dirs_def Let_def)
  have m3: "setup_metadata (worker s3) = setup_metadata (worker s2)"
    using copy_child_script_Inr [OF c3] by simp
  have m4: "setup_metadata (worker s4) = setup_metadata (worker s3)"
    using copy_dependencies_module_Inr [OF c4] by simp
  from copy_workspace_Inr [OF c5]
  have m5: "push_files (setup_metadata (worker s5)) = push_files (setup_metadata (worker s4))"
    "push_dirs (setup_metadata (worker s5)) = push_dirs (setup_metadata (worker s4))"
    by auto
  let ?s7 = "s5\<lparr>worker := (worker s5)
                    \<lparr>p_working_dirs := (p_working_dirs (worker s5))
                       \<lparr>local := Some (pwd e), remote := Some wd\<rparr>\<rparr>\<rparr>"
  from c7 p_push_files_nothing [where cfg = cfg and e = e and s = ?s7, OF no_push]
  have "worker s8 = worker ?s7" by auto
  then have m8: "setup_metadata (worker s8) = setup_metadata (worker s5)"
    by simp
  show "push_files (setup_metadata (worker s')) = push_files (setup_metadata (worker s))"
    unfolding fin using m5(1) by (simp add: m8 m4 m3 m2 m1)
  show "push_dirs (setup_metadata (worker s')) = push_dirs (setup_metadata (worker s))"
    unfolding fin using m5(2) by (simp add: m8 m4 m3 m2 m1)
qed

text \<open>
  C10.  With an empty push list (or none), \<^verbatim>\<open>_push_files\<close> returns without running
  a command and without changing the worker; it only logs a warning when
  \<^verbatim>\<open>push_exclude\<close> or \<^verbatim>\<open>push_relative_dir\<close> is configured.  The fields
  \<^verbatim>\<open>push_files\<close> and \<^verbatim>\<open>push_dirs\<close> of the setup metadata therefore keep the
  \<^verbatim>\<open>None\<close> of \<^verbatim>\<open>__init__\<close>, also at the end of \<^verbatim>\<open>_prepare_remote\<close>.
\<close>

theorem push_files_empty_push:
  assumes "\<not> truthy (cfg_push cfg)"
  shows "(\<exists>s'. p_push_files cfg e s = Inr s'
               \<and> worker s' = worker s \<and> executed s' = executed s \<and> responses s' = responses s
               \<and> logged s' = logged s @
                   (if truthy (cfg_push_exclude cfg) \<or> truthy (cfg_push_relative_dir cfg)
                    then [LogWarning (''Not been given any files to push - ''
                                      @ ''ignoring push configuration options.'')]
                    else []))
       \<and> push_files (setup_metadata (worker (state_init e))) = None
       \<and> push_dirs (setup_metadata (worker (state_init e))) = None
       \<and> (\<forall>s''. prepare_remote cfg e (state_init e) = Inr s'' \<longrightarrow>
              push_files (setup_metadata (worker s'')) = None
            \<and> push_dirs (setup_metadata (worker s'')) = None)"
proof -
  have init: "push_files (setup_metadata (worker (state_init e))) = None"
    "push_dirs (setup_metadata (worker (state_init e))) = None"
    by (simp_all add: state_init_def RemoteWorker_init_def WorkerSetupMetadata_init_def)
  have "\<exists>s'. p_push_files cfg e s = Inr s'
               \<and> worker s' = worker s \<and> executed s' = executed s \<and> responses s' = responses s
               \<and> logged s' = logged s @
                   (if truthy (cfg_push_exclude cfg) \<or> truthy (cfg_push_relative_dir cfg)
                    then [LogWarning (''Not been given any files to push - ''
                                      @ ''ignoring push configuration options.'')]
                    else [])"
    unfolding p_push_files_nothing [OF assms] by simp
  moreover have "push_files (setup_metadata (worker s'')) = None
            \<and> push_dirs (setup_metadata (worker s'')) = None"
    if "prepare_remote cfg e (state_init e) = Inr s''" for s''
    using prepare_remote_nothing_pushed [OF that assms] init by simp
  ultimately show ?thesis using init by blast
qed

theorem push_files_empty_push_witness:
  "\<not> truthy (cfg_push (example_cfg\<lparr>cfg_push_exclude := Some [''*.pyc'']\<rparr>))
   \<and> (\<exists>s'. p_push_files (example_cfg\<lparr>cfg_push_exclude := Some [''*.pyc'']\<rparr>) posix_env
              (state_init posix_env) = Inr s'
          \<and> worker s' = worker (state_init posix_env)
          \<and> executed s' = []
          \<and> logged s' = [LogWarning (''Not been given any files to push - ''
                                      @ ''ignoring push configuration options.'')])
   \<and> (\<exists>s''. prepare_remote (example_cfg\<lparr>cfg_push_exclude := Some [''*.pyc'']\<rparr>) posix_env
               (state_init posix_env) = Inr s''
          \<and> push_files (setup_metadata (worker s'')) = None
          \<and> push_dirs (setup_metadata (worker s'')) = None)"
proof -
  let ?cfg = "example_cfg\<lparr>cfg_push_exclude := Some [''*.pyc'']\<rparr>"
  have empty: "\<not> truthy (cfg_push ?cfg)"
    by (simp add: example_cfg_def truthy_def if_truthy_def)
  have opts: "truthy (cfg_push_exclude ?cfg)"
    by (simp add: example_cfg_def truthy_def if_truthy_def)
  obtain s'' where prep: "prepare_remote ?cfg posix_env (state_init posix_env) = Inr s''"
    by (simp add: example_defs step_defs)
  note inst = push_files_empty_push
    [where cfg = ?cfg and e = posix_env and s = "state_init posix_env", OF empty]
  from inst obtain s' where
    "p_push_files ?cfg posix_env (state_init posix_env) = Inr s'"
    "worker s' = worker (state_init posix_env)"
    "executed s' = executed (state_init posix_env)"
    "logged s' = logged (state_init posix_env) @
        (if truthy (cfg_push_exclude ?cfg) \<or> truthy (cfg_push_relative_dir ?cfg)
         then [LogWarning (''Not been given any files to push - ''
                           @ ''ignoring push configuration options.'')]
         else [])"
    by blast
  then have first: "\<exists>s'. p_push_files ?cfg posix_env (state_init posix_env) = Inr s'
          \<and> worker s' = worker (state_init posix_env)
          \<and> executed s' = []
          \<and> logged s' = [LogWarning (''Not been given any files to push - ''
                                      @ ''ignoring push configuration options.'')]"
    using opts by (simp add: state_init_def)
  from inst prep have "push_files (setup_metadata (worker s'')) = None
          \<and> push_dirs (setup_metadata (worker s'')) = None"
    by blast
  with prep empty first show ?thesis by blast
qed

section \<open>The command of the child process\<close>

lemma proc_cmd_shape:
  assumes "python_binary e = Inr python"
    and "remote (p_child_paths w) = Some child"
    and "remote (p_working_dirs w) = Some wd"
    and "p_remote_testplan_runpath w = Some runpath"
    and "local (p_workspace_paths w) = Some ws_local"
  shows "proc_cmd cfg e w =
     Inr (cfg_ssh_cmd cfg (cfg_index cfg) (str_join '' ''
       ([python, ''-uB'', child,
         ''--index'', cfg_index cfg,
         ''--address'', transport_address e,
         ''--type'', ''remote_worker'',
         ''--log-level'', str_int (effective_level e),
         ''--wd'', wd,
         ''--runpath'', runpath,
         ''--remote-pool-type'', cfg_pool_type cfg,
         ''--remote-pool-size'', str_int (cfg_workers cfg)]
        @ (case if_truthy (cfg_testplan_path cfg) of
             Some tp \<Rightarrow> [''--testplan'', tp]
           | None \<Rightarrow>
               if prefix ws_local (testplan_abspath e)
               then [''--testplan'',
                     py_str (remote (p_workspace_paths w)) @ ''/'' @
                     str_join ''/'' (str_split (os_sep e)
                       (relpath e (testplan_abspath e)
                          (longest_common_prefix (testplan_abspath e) ws_local)))]
               else [])
        @ (if \<not> p_should_transfer_workspace w
           then (case if_truthy (environ e (deps_env_name e)) of
                   Some deps \<Rightarrow> [''--testplan-deps'', deps]
                 | None \<Rightarrow> [])
           else []))))"
  using assms
  by (simp add: proc_cmd_def proc_cmd_args_def add_testplan_import_path_def
        add_testplan_deps_import_path_def Let_def split: option.splits)

text \<open>
  C8.  For a worker that \<^verbatim>\<open>_prepare_remote\<close> has prepared, \<^verbatim>\<open>_proc_cmd\<close> wraps in
  \<^verbatim>\<open>ssh_cmd\<close> the interpreter, \<open>-uB\<close>, the remote child script and then the pairs
  \<open>--index\<close>, \<open>--address\<close>, \<open>--type remote_worker\<close>, \<open>--log-level\<close>, \<open>--wd\<close>,
  \<open>--runpath\<close>, \<open>--remote-pool-type\<close>, \<open>--remote-pool-size\<close> in this order,
  followed by nothing or by \<open>--testplan <path>\<close>, followed by nothing or by
  \<open>--testplan-deps <path>\<close>.  The last pair is present exactly when
  \<^verbatim>\<open>_should_transfer_workspace\<close> is false and the dependencies variable of the
  environment is set and not empty; in that case the workspace was not transferred.
\<close>

theorem proc_cmd_flags:
  assumes prep: "prepare_remote cfg e s = Inr s'"
    and fresh: "\<not> workspace_pushed (setup_metadata (worker s))"
    and py: "python_binary e = Inr python"
  shows "\<exists>child wd runpath testplan deps.
           remote (p_child_paths (worker s')) = Some child
         \<and> remote (p_working_dirs (worker s')) = Some wd
         \<and> p_remote_testplan_runpath (worker s') = Some runpath
         \<and> proc_cmd cfg e (worker s') =
             Inr (cfg_ssh_cmd cfg (cfg_index cfg) (str_join '' ''
               ([python, ''-uB'', child,
                 ''--index'', cfg_index cfg,
                 ''--address'', transport_address e,
                 ''--type'', ''remote_worker'',
                 ''--log-level'', str_int (effective_level e),
                 ''--wd'', wd,
                 ''--runpath'', runpath,
                 ''--remote-pool-type'', cfg_pool_type cfg,
                 ''--remote-pool-size'', str_int (cfg_workers cfg)]
                @ testplan @ deps)))
         \<and> (testplan = [] \<or> (\<exists>path. testplan = [''--testplan'', path]))
         \<and> (deps = [] \<or> (\<exists>path. deps = [''--testplan-deps'', path]
                               \<and> environ e (deps_env_name e) = Some path))
         \<and> (deps \<noteq> [] \<longleftrightarrow>
              \<not> p_should_transfer_workspace (worker s') \<and> truthy (environ e (deps_env_name e)))
         \<and> (deps \<noteq> [] \<longrightarrow> \<not> workspace_pushed (setup_metadata (worker s')))"
proof -
  let ?w = "worker s'"
  let ?ws = "fix_home_prefix e (cfg_workspace cfg)"
  let ?testplan = "case if_truthy (cfg_testplan_path cfg) of
             Some tp \<Rightarrow> [''--testplan'', tp]
           | None \<Rightarrow>
               if prefix ?ws (testplan_abspath e)
               then [''--testplan'',
                     py_str (remote (p_workspace_paths ?w)) @ ''/'' @
                     str_join ''/'' (str_split (os_sep e)
                       (relpath e (testplan_abspath e)
                          (longest_common_prefix (testplan_abspath e) ?ws)))]
               else []"
  let ?deps = "if \<not> p_should_transfer_workspace ?w
           then (case if_truthy (environ e (deps_env_name e)) of
                   Some deps \<Rightarrow> [''--testplan-deps'', deps]
                 | None \<Rightarrow> [])
           else []"
  note facts = prepare_remote_Inr [OF prep]
  from facts(3) obtain child where child: "remote (p_child_paths ?w) = Some child" by simp
  from facts(6) obtain wd where wd: "remote (p_working_dirs ?w) = Some wd" by simp
  from facts(2) obtain runpath where rp: "p_remote_testplan_runpath ?w = Some runpath" by simp
  from facts(4) have wsl: "local (p_workspace_paths ?w) = Some ?ws" by simp
  note cmd = proc_cmd_shape [OF py child wd rp wsl, of cfg]
  have tp: "?testplan = [] \<or> (\<exists>path. ?testplan = [''--testplan'', path])"
    by (simp split: option.splits)
  have dp: "?deps = [] \<or> (\<exists>path. ?deps = [''--testplan-deps'', path]
                               \<and> environ e (deps_env_name e) = Some path)"
    by (auto simp: if_truthy_def split: option.splits if_splits)
  have dp_iff: "?deps \<noteq> [] \<longleftrightarrow>
      \<not> p_should_transfer_workspace ?w \<and> truthy (environ e (deps_env_name e))"
    by (auto simp: truthy_def split: option.splits)
  have pushed: "?deps \<noteq> [] \<longrightarrow> \<not> workspace_pushed (setup_metadata ?w)"
    using facts(8) fresh by (auto split: if_splits)
  from child wd rp cmd tp dp dp_iff pushed show ?thesis by blast
qed

theorem proc_cmd_flags_witness:
  "\<exists>s'. prepare_remote checked_cfg deps_env (state_init deps_env) = Inr s'
      \<and> proc_cmd checked_cfg deps_env (worker s') =
          Inr [''ssh'', ''h1'',
               ''/usr/bin/python -uB /var/tmp/u/testplan/remote_workspaces/plan/child.py''
               @ '' --index h1 --address 10.0.0.1:4000 --type remote_worker --log-level 30''
               @ '' --wd /var/tmp/u/testplan/remote_workspaces/plan/ws/t''
               @ '' --runpath /var/tmp/u/testplan/remote_workspaces/plan/runpath/h1''
               @ '' --remote-pool-type thread --remote-pool-size 2''
               @ '' --testplan-deps /deps'']"
proof -
  obtain s' where prep: "prepare_remote checked_cfg deps_env (state_init deps_env) = Inr s'"
    by (simp add: checked_cfg_def deps_env_def example_defs step_defs)
  have fresh: "\<not> workspace_pushed (setup_metadata (worker (state_init deps_env)))"
    by (simp add: example_defs)
  have py: "python_binary deps_env = Inr ''/usr/bin/python''"
    by (simp add: python_binary_def deps_env_def posix_env_def)
  note facts = prepare_remote_Inr [OF prep]
  have child: "remote (p_child_paths (worker s'))
                 = Some ''/var/tmp/u/testplan/remote_workspaces/plan/child.py''"
    unfolding facts(3) by (simp add: checked_cfg_def deps_env_def example_defs)
  have wd: "remote (p_working_dirs (worker s'))
                 = Some ''/var/tmp/u/testplan/remote_workspaces/plan/ws/t''"
    unfolding facts(6) by (simp add: checked_cfg_def deps_env_def example_defs)
  have rp: "p_remote_testplan_runpath (worker s')
                 = Some ''/var/tmp/u/testplan/remote_workspaces/plan/runpath/h1''"
    unfolding facts(2) by (simp add: checked_cfg_def deps_env_def example_defs)
  have st: "\<not> p_should_transfer_workspace (worker s')"
    unfolding facts(7) by (simp add: checked_cfg_def deps_env_def example_defs)
  have set: "truthy (environ deps_env (deps_env_name deps_env))"
    "environ deps_env (deps_env_name deps_env) = Some ''/deps''"
    by (simp_all add: truthy_def if_truthy_def deps_env_def posix_env_def)
  from proc_cmd_flags [OF prep fresh py] obtain child' wd' runpath' testplan deps where
    c: "remote (p_child_paths (worker s')) = Some child'"
    and w: "remote (p_working_dirs (worker s')) = Some wd'"
    and r: "p_remote_testplan_runpath (worker s') = Some runpath'"
    and run: "proc_cmd checked_cfg deps_env (worker s') =
             Inr (cfg_ssh_cmd checked_cfg (cfg_index checked_cfg) (str_join '' ''
               ([''/usr/bin/python'', ''-uB'', child',
                 ''--index'', cfg_index checked_cfg,
                 ''--address'', transport_address deps_env,
                 ''--type'', ''remote_worker'',
                 ''--log-level'', str_int (effective_level deps_env),
                 ''--wd'', wd',
                 ''--runpath'', runpath',
                 ''--remote-pool-type'', cfg_pool_type checked_cfg,
                 ''--remote-pool-size'', str_int (cfg_workers checked_cfg)]
                @ testplan @ deps)))"
    and t: "testplan = [] \<or> (\<exists>path. testplan = [''--testplan'', path])"
    and d: "deps = [] \<or> (\<exists>path. deps = [''--testplan-deps'', path]
                               \<and> environ deps_env (deps_env_name deps_env) = Some path)"
    and d_iff: "deps \<noteq> [] \<longleftrightarrow>
              \<not> p_should_transfer_workspace (worker s')
              \<and> truthy (environ deps_env (deps_env_name deps_env))"
    by blast
  from c child have c': "child' = ''/var/tmp/u/testplan/remote_workspaces/plan/child.py''" by simp
  from w wd have w': "wd' = ''/var/tmp/u/testplan/remote_workspaces/plan/ws/t''" by simp
  from r rp have r': "runpath' = ''/var/tmp/u/testplan/remote_workspaces/plan/runpath/h1''" by simp
  from d d_iff st set have d': "deps = [''--testplan-deps'', ''/deps'']" by auto
  have "proc_cmd checked_cfg deps_env (worker s') =
          Inr (cfg_ssh_cmd checked_cfg (cfg_index checked_cfg) (str_join '' ''
               ([''/usr/bin/python'', ''-uB'',
                 ''/var/tmp/u/testplan/remote_workspaces/plan/child.py'',
                 ''--index'', cfg_index checked_cfg,
                 ''--address'', transport_address deps_env,
                 ''--type'', ''remote_worker'',
                 ''--log-level'', str_int (effective_level deps_env),
                 ''--wd'', ''/var/tmp/u/testplan/remote_workspaces/plan/ws/t'',
                 ''--runpath'', ''/var/tmp/u/testplan/remote_workspaces/plan/runpath/h1'',
                 ''--remote-pool-type'', cfg_pool_type checked_cfg,
                 ''--remote-pool-size'', str_int (cfg_workers checked_cfg)]
                @ [] @ [''--testplan-deps'', ''/deps''])))"
    using proc_cmd_shape [OF py child wd rp, of "fix_home_prefix deps_env (cfg_workspace checked_cfg)" checked_cfg]
      facts(4) st set(2)
    by (simp add: if_truthy_def checked_cfg_def deps_env_def example_defs)
  then have "proc_cmd checked_cfg deps_env (worker s') =
          Inr [''ssh'', ''h1'',
               ''/usr/bin/python -uB /var/tmp/u/testplan/remote_workspaces/plan/child.py''
               @ '' --index h1 --address 10.0.0.1:4000 --type remote_worker --log-level 30''
               @ '' --wd /var/tmp/u/testplan/remote_workspaces/plan/ws/t''
               @ '' --runpath /var/tmp/u/testplan/remote_workspaces/plan/runpath/h1''
               @ '' --remote-pool-type thread --remote-pool-size 2''
               @ '' --testplan-deps /deps'']"
    by (simp add: checked_cfg_def deps_env_def example_defs str_int_def digit_char_def)
  with prep run show ?thesis by blast
qed

section \<open>The shape of the push list\<close>

lemma those_as_string_Some:
  "those (map as_string push) = Some srcs \<longleftrightarrow> push = map PStr srcs"
proof (induction push arbitrary: srcs)
  case Nil
  then show ?case by auto
next
  case (Cons item push)
  then show ?case by (cases item) (auto split: option.splits)
qed

lemma those_as_string_None:
  "those (map as_string push) = None \<longleftrightarrow> (\<exists>t. PTuple t \<in> set push)"
proof (induction push)
  case Nil
  then show ?case by simp
next
  case (Cons item push)
  then show ?case by (cases item) (auto split: option.splits)
qed

text \<open>A list of strings alone is not rejected for its shape.\<close>

lemma push_locations_all_strings:
  assumes "\<not> truthy (cfg_push_relative_dir cfg)"
  shows "push_locations cfg e (map PStr srcs) s
           = Inr (map (\<lambda>src. PTuple [src, to_posix_path e src]) srcs, s)"
proof -
  have "those (map as_string (map PStr srcs)) = Some srcs"
    using those_as_string_Some by blast
  moreover have "build_push_dests cfg e srcs s = Inr (map (to_posix_path e) srcs, s)"
    using assms by (simp add: build_push_dests_def truthy_def split: option.splits)
  moreover have "map (\<lambda>(source, dest). PTuple [source, dest]) (zip srcs (map (to_posix_path e) srcs))
                   = map (\<lambda>src. PTuple [src, to_posix_path e src]) srcs"
    by (induction srcs) auto
  ultimately show ?thesis by (simp add: push_locations_def)
qed

text \<open>A non-empty list of 2-tuples alone is accepted as it is.\<close>

lemma push_locations_all_pairs:
  assumes "push \<noteq> []" and "\<forall>item \<in> set push. \<exists>source dest. item = PTuple [source, dest]"
  shows "\<exists>s'. push_locations cfg e push s = Inr (push, s')
             \<and> worker s' = worker s \<and> executed s' = executed s"
proof -
  from assms obtain t where "PTuple t \<in> set push" by (cases push) auto
  then have "those (map as_string push) = None" by (auto simp: those_as_string_None)
  moreover from assms(2) have "list_all (\<lambda>pair. item_len pair = 2) push"
    by (auto simp: list_all_iff)
  ultimately show ?thesis by (simp add: push_locations_def)
qed

text \<open>
  A list with a tuple and a string is rejected when the string is not two characters
  long.
\<close>

lemma push_locations_mixed_rejected:
  assumes "PTuple t \<in> set push" and "PStr x \<in> set push" and "length x \<noteq> 2"
  shows "push_locations cfg e push s = Inl (TypeError
           ''Expected either a list of 2-tuples or list of strings for push config.'')"
proof -
  from assms(1) have "those (map as_string push) = None" by (auto simp: those_as_string_None)
  moreover from assms(2,3) have "\<not> list_all (\<lambda>pair. item_len pair = 2) push"
    by (auto simp: list_all_iff intro!: bexI [of _ "PStr x"])
  ultimately show ?thesis by (simp add: push_locations_def)
qed

text \<open>
  C4.  The push list \<^verbatim>\<open>["/a", ("/b", "/c")]\<close> mixes a string and a tuple, and
  \<^verbatim>\<open>_build_push_lists\<close> accepts it: the string \<open>/a\<close> has length two, passes
  \<^verbatim>\<open>len(pair) == 2\<close> and is unpacked into the source \<open>/\<close> and the destination
  \<open>a\<close>; stripped of its separator the source is empty, so the item is logged as not
  pushable, and the lists are returned without \<^verbatim>\<open>TypeError\<close>.
\<close>

theorem build_push_lists_mixed_accepted:
  "build_push_lists mixed_cfg posix_env (state_init posix_env)
     = Inr (([], [\<lparr>local = ''/b'', remote = ''/c''\<rparr>]),
            (state_init posix_env)
              \<lparr>logged := [LogError (''Item '' @ [CHR 0x22, CHR 0x22] @ '' cannot be pushed!'')]\<rparr>)"
  by (simp add: mixed_cfg_def example_defs step_defs)

section \<open>The remote push directory\<close>

text \<open>
  C5.  With \<^verbatim>\<open>push_relative_dir\<close> and a list of sources, \<^verbatim>\<open>_build_push_dests\<close>
  stores \<open><remote_testplan_path>/push_files\<close> in the attribute \<^verbatim>\<open>_remote_push_dir\<close>
  and in \<^verbatim>\<open>setup_metadata.push_dir\<close>; the attribute \<^verbatim>\<open>remote_push_dir\<close> that
  \<^verbatim>\<open>__init__\<close> creates stays \<^verbatim>\<open>None\<close>.
\<close>

theorem build_push_dests_remote_push_dir:
  "\<exists>s'. build_push_dests relative_cfg posix_env [''/home/u/ws/a/x.txt'']
            (define_remote_dirs relative_cfg posix_env (state_init posix_env))
          = Inr ([''/var/tmp/u/testplan/remote_workspaces/plan/push_files/a/x.txt''], s')
      \<and> remote_push_dir (worker s') = None
      \<and> p_remote_push_dir (worker s')
          = Some ''/var/tmp/u/testplan/remote_workspaces/plan/push_files''
      \<and> push_dir (setup_metadata (worker s'))
          = Some ''/var/tmp/u/testplan/remote_workspaces/plan/push_files''"
  by (simp add: relative_cfg_def example_defs step_defs)

end
